theory Spec2Isabelle
  imports Complex_Main "HOL-Library.Monad_Syntax"
begin

section \<open>Tensors as nested lists\<close>

text \<open>
  The pose trainer of \<^verbatim>\<open>ultralytics/yolo/v8/pose/train.py\<close> works on tensors of the
  numerical library. A tensor is embedded as a nested list of its entries, outermost
  dimension first, and its entries as real numbers: \<open>t1\<close> is a vector, \<open>t2\<close> a matrix
  given by its rows, \<open>t3\<close> and \<open>t4\<close> the tensors of three and four dimensions. A tensor of
  shape \<open>(n, 1)\<close> is written as the vector of its \<open>n\<close> entries. Rounding, infinities and NaN
  of the floating-point entries are outside this embedding, and so are \<open>detach\<close>, \<open>to\<close>,
  \<open>float\<close>, \<open>type\<close> and \<open>contiguous\<close>, which leave the entries as they are. A tensor
  with an empty dimension keeps no record of the dimensions under it: shape \<open>(0, c)\<close> is
  the empty list.

  The functions this file calls and does not define (the methods of the base class
  \<open>Loss\<close>, the assigner, the losses of the library, \<open>make_anchors\<close>, \<open>xyxy2xywh\<close>,
  \<open>sigmoid\<close>) are parameters of the model, and the tensors they return are taken as they
  come: where this file indexes them, masks them or broadcasts them against one
  another, a shape that does not fit raises.
\<close>

type_synonym t1 = "real list"
type_synonym t2 = "real list list"
type_synonym t3 = "real list list list"
type_synonym t4 = "real list list list list"
type_synonym mask1 = "bool list"
type_synonym mask2 = "bool list list"

text \<open>
  A call that raises (the IndexError of an index out of range or of a mask of the wrong
  length, the RuntimeError of shapes that do not broadcast, the KeyError of a missing
  dictionary entry) returns \<open>None\<close>; a call that returns \<open>v\<close> returns \<open>Some v\<close>.
\<close>

text \<open>The index \<open>j\<close> belongs to the Python slice \<open>start::step\<close>.\<close>

definition in_slice :: "nat \<Rightarrow> nat \<Rightarrow> nat \<Rightarrow> bool" where
  "in_slice start step j \<longleftrightarrow> start \<le> j \<and> (j - start) mod step = 0"

text \<open>\<open>row[start::3]\<close>, read.\<close>

definition slice3 :: "nat \<Rightarrow> 'a list \<Rightarrow> 'a list" where
  "slice3 start row = map snd (filter (\<lambda>(j, v). in_slice start 3 j) (enumerate 0 row))"

text \<open>\<open>row[start::3] = f(row[start::3])\<close>, entry by entry: an in-place update of the slice.\<close>

definition slice3_upd :: "nat \<Rightarrow> ('a \<Rightarrow> 'a) \<Rightarrow> 'a list \<Rightarrow> 'a list" where
  "slice3_upd start f row = map (\<lambda>(j, v). if in_slice start 3 j then f v else v) (enumerate 0 row)"

text \<open>\<open>x[mask]\<close> for a boolean mask over the first dimension: the selected entries, copied.\<close>

definition mask_select :: "mask1 \<Rightarrow> 'a list \<Rightarrow> 'a list" where
  "mask_select m xs = map snd (filter fst (zip m xs))"

text \<open>\<open>m[:, [k]]\<close>: column \<open>k\<close> of a matrix, raising when a row has no entry \<open>k\<close>.\<close>

definition col :: "nat \<Rightarrow> t2 \<Rightarrow> t1 option" where
  "col k m = (if list_all (\<lambda>r. k < length r) m then Some (map (\<lambda>r. r ! k) m) else None)"

text \<open>
  Broadcasting a column of \<open>m\<close> entries against the \<open>n\<close> rows of the tensor updated in
  place: the column has one entry per row, or one entry for all rows; any other shape
  raises.
\<close>

definition bcast_col :: "nat \<Rightarrow> 'a list \<Rightarrow> 'a list option" where
  "bcast_col n c =
     (if length c = n then Some c
      else if length c = 1 then Some (replicate n (hd c))
      else None)"

text \<open>\<open>x[i]\<close> for an integer \<open>i \<ge> 0\<close>.\<close>

definition index :: "'a list \<Rightarrow> nat \<Rightarrow> 'a option" where
  "index xs i = (if i < length xs then Some (xs ! i) else None)"

text \<open>\<open>x[mask]\<close> raises when the mask has not the length of \<open>x\<close>.\<close>

definition mask_index :: "mask1 \<Rightarrow> 'a list \<Rightarrow> 'a list option" where
  "mask_index m xs = (if length m = length xs then Some (mask_select m xs) else None)"

text \<open>\<open>x[idx]\<close> for a tensor \<open>idx\<close> of indices: the rows named, in their order.\<close>

definition gather :: "'a list \<Rightarrow> nat list \<Rightarrow> 'a list option" where
  "gather xs idx = (if list_all (\<lambda>j. j < length xs) idx then Some (map (\<lambda>j. xs ! j) idx) else None)"

text \<open>
  \<open>t[:, start::3] = f(t[:, start::3], c)\<close> in place, for a column \<open>c\<close> broadcast over the
  rows of \<open>t\<close>.
\<close>

definition islice_rows :: "nat \<Rightarrow> (real \<Rightarrow> real \<Rightarrow> real) \<Rightarrow> t2 \<Rightarrow> t1 \<Rightarrow> t2 option" where
  "islice_rows start f t c = do {
     cs \<leftarrow> bcast_col (length t) c;
     Some (map2 (\<lambda>row a. slice3_upd start (\<lambda>v. f v a) row) t cs)
   }"

text \<open>\<open>t /= c\<close> in place, for a matrix \<open>t\<close> and a column \<open>c\<close>.\<close>

definition idiv_rows :: "t2 \<Rightarrow> t1 \<Rightarrow> t2 option" where
  "idiv_rows t c = do {
     cs \<leftarrow> bcast_col (length t) c;
     Some (map2 (\<lambda>row a. map (\<lambda>v. v / a) row) t cs)
   }"

text \<open>
  \<open>t * c\<close> for a matrix \<open>t\<close> of \<open>n\<close> rows and a column \<open>c\<close> of \<open>m\<close> entries, a new tensor:
  row by row when \<open>n = m\<close>, and the single row or the single entry repeated when
  \<open>n = 1\<close> or \<open>m = 1\<close>.
\<close>

definition mul_rows :: "t2 \<Rightarrow> t1 \<Rightarrow> t2 option" where
  "mul_rows t c =
     (if length t = length c then Some (map2 (\<lambda>row a. map (\<lambda>v. v * a) row) t c)
      else if length c = 1 then Some (map (map (\<lambda>v. v * hd c)) t)
      else if length t = 1 then Some (map (\<lambda>a. map (\<lambda>v. v * a) (hd t)) c)
      else None)"

text \<open>\<open>mask.sum()\<close> of a boolean tensor: the number of its true entries.\<close>

definition count_true :: "mask1 \<Rightarrow> nat" where
  "count_true m = length (filter (\<lambda>b. b) m)"

definition sum3 :: "t3 \<Rightarrow> real" where
  "sum3 t = sum_list (map (\<lambda>im. sum_list (map sum_list im)) t)"

text \<open>\<open>mask.float()\<close>.\<close>

definition float_of_bool :: "bool \<Rightarrow> real" where
  "float_of_bool b = (if b then 1 else 0)"

text \<open>
  Python's \<open>max(a, b)\<close> of two arguments keeps the first unless the second is greater.
\<close>

definition py_max :: "real \<Rightarrow> real \<Rightarrow> real" where
  "py_max a b = (if b > a then b else a)"

text \<open>\<open>for i in range(n): body\<close>, stopping at the first iteration that raises.\<close>

fun for_each :: "nat list \<Rightarrow> (nat \<Rightarrow> 's \<Rightarrow> 's option) \<Rightarrow> 's \<Rightarrow> 's option" where
  "for_each [] body s = Some s"
| "for_each (i # rest) body s = Option.bind (body i s) (for_each rest body)"

section \<open>The store of tensor objects\<close>

text \<open>
  \<open>kpts_decode\<close> updates a tensor in place, so tensors live in a store: a reference is
  an index into the list of allocated matrices, and \<open>clone\<close> allocates a new one.
\<close>

type_synonym addr = nat
type_synonym heap = "t2 list"

definition clone :: "heap \<Rightarrow> addr \<Rightarrow> addr \<times> heap" where
  "clone h a = (length h, h @ [h ! a])"

text \<open>\<open>y[..., start::3] *= c\<close> for a scalar \<open>c\<close>.\<close>

definition imul_slice :: "heap \<Rightarrow> addr \<Rightarrow> nat \<Rightarrow> real \<Rightarrow> heap" where
  "imul_slice h y start c = h[y := map (slice3_upd start (\<lambda>v. v * c)) (h ! y)]"

text \<open>\<open>y[..., start::3] += c\<close> for a column \<open>c\<close>; nothing is written when the shapes do not fit.\<close>

definition iadd_slice :: "heap \<Rightarrow> addr \<Rightarrow> nat \<Rightarrow> t1 \<Rightarrow> heap option" where
  "iadd_slice h y start c = do {
     rows \<leftarrow> islice_rows start (\<lambda>v a. v + a) (h ! y) c;
     Some (h[y := rows])
   }"

section \<open>PoseLoss.kpts\_decode\<close>

text \<open>
  \<^verbatim>\<open>
  def kpts_decode(self, anchor_points, pred_kpts, bbox):
      y = pred_kpts.clone()
      y[..., 0::3] *= 2
      y[..., 1::3] *= 2
      y[..., 0::3] += anchor_points[:, [0]] - 0.5
      y[..., 1::3] += anchor_points[:, [1]] - 0.5
      return y
  \<close>
  The three arguments are references into the store; the result is the reference
  returned (\<open>None\<close> when the call raises) together with the store the call leaves.
  The tensors are matrices, as at the call in \<open>__call__\<close>.
\<close>

definition kpts_decode_st :: "heap \<Rightarrow> addr \<Rightarrow> addr \<Rightarrow> addr \<Rightarrow> addr option \<times> heap" where
  "kpts_decode_st h anchor_points pred_kpts bbox =
     (let (y, h1) = clone h pred_kpts;
          h2 = imul_slice h1 y 0 2;
          h3 = imul_slice h2 y 1 2
      in case col 0 (h3 ! anchor_points) of
           None \<Rightarrow> (None, h3)
         | Some a0 \<Rightarrow>
        (case iadd_slice h3 y 0 (map (\<lambda>v. v - 0.5) a0) of
           None \<Rightarrow> (None, h3)
         | Some h4 \<Rightarrow>
        (case col 1 (h4 ! anchor_points) of
           None \<Rightarrow> (None, h4)
         | Some a1 \<Rightarrow>
        (case iadd_slice h4 y 1 (map (\<lambda>v. v - 0.5) a1) of
           None \<Rightarrow> (None, h4)
         | Some h5 \<Rightarrow> (Some y, h5)))))"

text \<open>
  The same call on tensor values, as \<open>__call__\<close> uses it: the arguments are put into a
  store of their own and the tensor at the returned reference is read back.
\<close>

definition kpts_decode :: "t2 \<Rightarrow> t2 \<Rightarrow> t2 \<Rightarrow> t2 option" where
  "kpts_decode anchor_points pred_kpts bbox =
     (case kpts_decode_st [anchor_points, pred_kpts, bbox] 0 1 2 of
        (None, h) \<Rightarrow> None
      | (Some y, h) \<Rightarrow> Some (h ! y))"

section \<open>PoseTrainer\<close>

text \<open>
  Python values, as far as the trainer looks at them: the entries of the \<open>overrides\<close>
  and \<open>data\<close> dictionaries and the \<open>cfg\<close>, \<open>weights\<close> and \<open>verbose\<close> arguments.
  \<open>PyObj\<close> is an object with the default truth value, such as a loaded checkpoint.
\<close>

datatype py_value =
    PyNone
  | PyBool bool
  | PyInt int
  | PyStr string
  | PyList "py_value list"
  | PyObj nat

fun truthy :: "py_value \<Rightarrow> bool" where
  "truthy PyNone = False"
| "truthy (PyBool b) = b"
| "truthy (PyInt n) = (n \<noteq> 0)"
| "truthy (PyStr s) = (s \<noteq> [])"
| "truthy (PyList vs) = (vs \<noteq> [])"
| "truthy (PyObj a) = True"

type_synonym py_dict = "string \<rightharpoonup> py_value"

text \<open>
  \<^verbatim>\<open>
  def __init__(self, cfg=DEFAULT_CFG, overrides=None):
      if overrides is None:
          overrides = {}
      overrides['task'] = 'pose'
      super().__init__(cfg, overrides)
  \<close>
  The detection trainer's constructor is the parameter \<open>super_init\<close>; an argument left
  out, or given as \<open>None\<close>, is \<open>None\<close>.
\<close>

definition PoseTrainer_init :: "('c \<Rightarrow> py_dict \<Rightarrow> 't) \<Rightarrow> 'c \<Rightarrow> py_dict option \<Rightarrow> 't" where
  "PoseTrainer_init super_init cfg overrides =
     (let overrides = (case overrides of None \<Rightarrow> Map.empty | Some d \<Rightarrow> d);
          overrides = overrides(''task'' \<mapsto> PyStr ''pose'')
      in super_init cfg overrides)"

text \<open>
  A \<open>PoseModel\<close> object is known by the arguments of its construction and by the weights
  loaded into it since, in the order of the \<open>load\<close> calls.
\<close>

record PoseModel =
  m_cfg :: py_value
  m_ch :: int
  m_nc :: py_value
  m_nkpt :: py_value
  m_verbose :: py_value
  m_loaded :: "py_value list"

definition load :: "PoseModel \<Rightarrow> py_value \<Rightarrow> PoseModel" where
  "load model weights = model\<lparr>m_loaded := m_loaded model @ [weights]\<rparr>"

text \<open>
  \<^verbatim>\<open>
  def get_model(self, cfg=None, weights=None, verbose=True):
      model = PoseModel(cfg, ch=3, nc=self.data['nc'], nkpt=self.data['nkpt'], verbose=verbose)
      if weights:
          model.load(weights)
      return model
  \<close>
  \<open>data\<close> is \<open>self.data\<close>, the dataset configuration of the trainer.
\<close>

definition get_model :: "py_dict \<Rightarrow> py_value \<Rightarrow> py_value \<Rightarrow> py_value \<Rightarrow> PoseModel option" where
  "get_model data cfg weights verbose = do {
     nc \<leftarrow> data ''nc'';
     nkpt \<leftarrow> data ''nkpt'';
     let model = \<lparr>m_cfg = cfg, m_ch = 3, m_nc = nc, m_nkpt = nkpt, m_verbose = verbose,
                  m_loaded = []\<rparr>;
     Some (if truthy weights then load model weights else model)
   }"

section \<open>PoseLoss\<close>

text \<open>
  The loss object. What the base class \<open>Loss\<close> sets up (\<open>super().__init__(model)\<close>, not
  part of this file) are the fields of the record \<open>Loss\<close>: the gains \<open>hyp\<close>, the strides,
  the sizes \<open>nc\<close>, \<open>no\<close>, \<open>reg_max\<close>, and the callables \<open>preprocess\<close>, \<open>bbox_decode\<close>,
  \<open>assigner\<close>, \<open>bce\<close> and \<open>bbox_loss\<close>, each a function of its arguments. The assigner
  returns the five tensors \<open>(target_labels, target_bboxes, target_scores, fg_mask,
  target_gt_idx)\<close>.
\<close>

record hyperparameters =
  box :: real
  cls :: real
  dfl :: real

record Loss =
  hyp :: hyperparameters
  stride :: t1
  nc :: nat
  no :: nat
  reg_max :: nat
  preprocess :: "t2 \<Rightarrow> nat \<Rightarrow> t1 \<Rightarrow> t3"
  bbox_decode :: "t2 \<Rightarrow> t3 \<Rightarrow> t3"
  assigner :: "t3 \<Rightarrow> t3 \<Rightarrow> t2 \<Rightarrow> t3 \<Rightarrow> t3 \<Rightarrow> t3 \<Rightarrow> t2 \<times> t3 \<times> t3 \<times> mask2 \<times> nat list list"
  bce :: "t3 \<Rightarrow> t3 \<Rightarrow> t3"
  bbox_loss :: "t3 \<Rightarrow> t3 \<Rightarrow> t2 \<Rightarrow> t3 \<Rightarrow> t3 \<Rightarrow> real \<Rightarrow> mask2 \<Rightarrow> real \<times> real"

record PoseLoss = Loss +
  nkpt :: nat
  bce_pose :: "t2 \<Rightarrow> t2 \<Rightarrow> real"
  keypoint_loss :: "t2 \<Rightarrow> t2 \<Rightarrow> mask2 \<Rightarrow> t1 \<Rightarrow> real"

text \<open>
  The names the file imports and calls: \<open>nn.BCEWithLogitsLoss()\<close> (the loss object with
  the default reduction, applied to logits and targets), the class \<open>KeypointLoss\<close>
  (constructed for a number of keypoints, then applied to predicted keypoints, ground
  truth keypoints, mask and area), \<open>make_anchors\<close>, \<open>xyxy2xywh\<close> and the tensor method
  \<open>sigmoid\<close>, given by what it does to one entry. They are parameters of the model.
\<close>

record library =
  BCEWithLogitsLoss :: "t2 \<Rightarrow> t2 \<Rightarrow> real"
  KeypointLoss :: "nat \<Rightarrow> t2 \<Rightarrow> t2 \<Rightarrow> mask2 \<Rightarrow> t1 \<Rightarrow> real"
  make_anchors :: "t4 list \<Rightarrow> t1 \<Rightarrow> real \<Rightarrow> t2 \<times> t1"
  xyxy2xywh :: "t2 \<Rightarrow> t2"
  sigmoid :: "real \<Rightarrow> real"

text \<open>
  \<^verbatim>\<open>
  def __init__(self, model):  # model must be de-paralleled
      super().__init__(model)
      self.nkpt = model.model[-1].nkpt  # number of keypoints
      self.bce_pose = nn.BCEWithLogitsLoss()
      self.keypoint_loss = KeypointLoss(device=self.device, nkpt=self.nkpt)
  \<close>
  \<open>base\<close> is the object after \<open>super().__init__(model)\<close> and \<open>head_nkpt\<close> is
  \<open>model.model[-1].nkpt\<close>.
\<close>

definition PoseLoss_init :: "library \<Rightarrow> Loss \<Rightarrow> nat \<Rightarrow> PoseLoss" where
  "PoseLoss_init lib base head_nkpt =
     Loss.extend base
       \<lparr>nkpt = head_nkpt,
        bce_pose = BCEWithLogitsLoss lib,
        keypoint_loss = KeypointLoss lib head_nkpt\<rparr>"

text \<open>
  The predictions are \<open>(feats, pred_kpts)\<close> in training and \<open>(y, (feats, pred_kpts))\<close>
  otherwise; \<open>feats\<close> is the list of feature maps, each of shape \<open>(b, no, h, w)\<close>, and
  \<open>pred_kpts\<close> has shape \<open>(b, 3 * nkpt, anchors)\<close>.
\<close>

datatype preds = Training "t4 list" t3 | Inference t3 "t4 list" t3

text \<open>
  The batch of the pose data loader: \<open>batch['batch_idx']\<close>, \<open>batch['cls']\<close>,
  \<open>batch['bboxes']\<close> and \<open>batch['keypoints']\<close>, one entry (row) per labelled object.
\<close>

record batch =
  b_batch_idx :: t1
  b_cls :: t1
  b_bboxes :: t2
  b_keypoints :: t2

text \<open>\<open>feats, pred_kpts = preds if isinstance(preds[0], list) else preds[1]\<close>\<close>

fun split_preds :: "preds \<Rightarrow> t4 list \<times> t3" where
  "split_preds (Training feats pred_kpts) = (feats, pred_kpts)"
| "split_preds (Inference y feats pred_kpts) = (feats, pred_kpts)"

text \<open>
  \<open>torch.cat([xi.view(feats[0].shape[0], c, -1) for xi in feats], 2)\<close> for feature maps
  of shape \<open>(b, c, h, w)\<close>: entry \<open>[i][k]\<close> is the row-major flattening of \<open>xi[i][k]\<close>, the
  maps one after the other. \<open>feats[0]\<close> raises on an empty list and the \<open>view\<close> on an
  empty batch; a map whose first two dimensions are not \<open>(b, c)\<close> is not an output of the
  detection head and is answered by \<open>None\<close> as well.
\<close>

definition cat_views :: "nat \<Rightarrow> t4 list \<Rightarrow> t3 option" where
  "cat_views c feats =
     (case feats of
        [] \<Rightarrow> None
      | x0 # _ \<Rightarrow>
          if length x0 = 0 then None
          else if list_all (\<lambda>xi. length xi = length x0 \<and> list_all (\<lambda>im. length im = c) xi) feats
          then Some (map (\<lambda>i. map (\<lambda>k. concat (map (\<lambda>xi. concat (xi ! i ! k)) feats)) [0..<c])
                      [0..<length x0])
          else None)"

text \<open>\<open>x.shape[2:]\<close> of a tensor of four dimensions, read off its first entries.\<close>

definition shape_hw :: "t4 \<Rightarrow> nat \<times> nat" where
  "shape_hw x =
     (case x of
        (ch # _) # _ \<Rightarrow> (length ch, (case ch of r # _ \<Rightarrow> length r | [] \<Rightarrow> 0))
      | _ \<Rightarrow> (0, 0))"

text \<open>\<open>t * c\<close> and \<open>t /= c\<close> for \<open>t\<close> of shape \<open>(b, n, k)\<close> and \<open>c\<close> of shape \<open>(n, 1)\<close>.\<close>

definition mul_rows3 :: "t3 \<Rightarrow> t1 \<Rightarrow> t3 option" where
  "mul_rows3 t c = those (map (\<lambda>im. mul_rows im c) t)"

definition idiv_rows3 :: "t3 \<Rightarrow> t1 \<Rightarrow> t3 option" where
  "idiv_rows3 t c = those (map (\<lambda>im. idiv_rows im c) t)"

definition require :: "bool \<Rightarrow> unit option" where
  "require c = (if c then Some () else None)"

text \<open>
  \<open>torch.cat((batch_idx, batch['cls'].view(-1, 1), batch['bboxes']), 1)\<close> with
  \<open>batch_idx\<close> of shape \<open>(n, 1)\<close>: the rows \<open>[batch_idx, cls, x, y, w, h]\<close>.
\<close>

definition cat_targets :: "t1 \<Rightarrow> t1 \<Rightarrow> t2 \<Rightarrow> t2 option" where
  "cat_targets batch_idx cl bboxes =
     (if length batch_idx = length cl \<and> length cl = length bboxes
      then Some (map (\<lambda>(i, c, bx). i # c # bx) (zip batch_idx (zip cl bboxes)))
      else None)"

text \<open>\<open>targets.split((1, 4), 2)\<close> on a tensor whose last dimension is 5.\<close>

definition split_1_4 :: "t3 \<Rightarrow> (t3 \<times> t3) option" where
  "split_1_4 t =
     (if list_all (list_all (\<lambda>r. length r = 5)) t
      then Some (map (map (take 1)) t, map (map (drop 1)) t)
      else None)"

text \<open>
  Lines 74 to 96 of \<open>__call__\<close>: the predictions are split and permuted, the image size
  and the anchors are computed, the targets are built from the batch, and the boxes are
  decoded. The record holds the local variables of the method at that point
  (\<open>batch_idx\<close> of shape \<open>(n, 1)\<close> as a vector, \<open>imgsz\<close> as the pair \<open>(h, w)\<close>).
  \<^verbatim>\<open>
  feats, pred_kpts = preds if isinstance(preds[0], list) else preds[1]
  pred_distri, pred_scores = torch.cat([xi.view(feats[0].shape[0], self.no, -1) for xi in feats], 2).split(
      (self.reg_max * 4, self.nc), 1)
  pred_scores = pred_scores.permute(0, 2, 1).contiguous()
  pred_distri = pred_distri.permute(0, 2, 1).contiguous()
  pred_kpts = pred_kpts.permute(0, 2, 1).contiguous()
  dtype = pred_scores.dtype
  imgsz = torch.tensor(feats[0].shape[2:], device=self.device, dtype=dtype) * self.stride[0]
  anchor_points, stride_tensor = make_anchors(feats, self.stride, 0.5)
  batch_size = pred_scores.shape[0]
  batch_idx = batch['batch_idx'].view(-1, 1)
  targets = torch.cat((batch_idx, batch['cls'].view(-1, 1), batch['bboxes']), 1)
  targets = self.preprocess(targets.to(self.device), batch_size, scale_tensor=imgsz[[1, 0, 1, 0]])
  gt_labels, gt_bboxes = targets.split((1, 4), 2)  # cls, xyxy
  mask_gt = gt_bboxes.sum(2, keepdim=True).gt_(0)
  pred_bboxes = self.bbox_decode(anchor_points, pred_distri)  # xyxy, (b, h*w, 4)
  \<close>
\<close>

record prep =
  pred_distri :: t3
  pred_scores :: t3
  pred_kpts :: t3
  imgsz :: "real \<times> real"
  anchor_points :: t2
  stride_tensor :: t1
  batch_size :: nat
  batch_idx :: t1
  gt_labels :: t3
  gt_bboxes :: t3
  mask_gt :: t3
  pred_bboxes :: t3

definition prepare :: "library \<Rightarrow> 'a Loss_scheme \<Rightarrow> preds \<Rightarrow> batch \<Rightarrow> prep option" where
  "prepare lib self preds batch = do {
     let (feats, pred_kpts) = split_preds preds;
     x \<leftarrow> cat_views (no self) feats;
     _ \<leftarrow> require (no self = reg_max self * 4 + nc self);
     let pred_distri = map (take (reg_max self * 4)) x;
     let pred_scores = map (drop (reg_max self * 4)) x;
     let pred_scores = map transpose pred_scores;
     let pred_distri = map transpose pred_distri;
     let pred_kpts = map transpose pred_kpts;
     feats0 \<leftarrow> index feats 0;
     stride0 \<leftarrow> index (stride self) 0;
     let (h, w) = shape_hw feats0;
     let imgsz = (real h * stride0, real w * stride0);
     let (anchor_points, stride_tensor) = make_anchors lib feats (stride self) 0.5;
     let batch_size = length pred_scores;
     let batch_idx = b_batch_idx batch;
     targets \<leftarrow> cat_targets batch_idx (b_cls batch) (b_bboxes batch);
     let targets = preprocess self targets batch_size [snd imgsz, fst imgsz, snd imgsz, fst imgsz];
     (gt_labels, gt_bboxes) \<leftarrow> split_1_4 targets;
     let mask_gt = map (map (\<lambda>bx. [if sum_list bx > 0 then 1 else 0])) gt_bboxes;
     let pred_bboxes = bbox_decode self anchor_points pred_distri;
     Some \<lparr>pred_distri = pred_distri, pred_scores = pred_scores, pred_kpts = pred_kpts,
           imgsz = imgsz, anchor_points = anchor_points, stride_tensor = stride_tensor,
           batch_size = batch_size, batch_idx = batch_idx, gt_labels = gt_labels,
           gt_bboxes = gt_bboxes, mask_gt = mask_gt, pred_bboxes = pred_bboxes\<rparr>
   }"

text \<open>
  Lines 99 to 101: the call of the assigner.
  \<^verbatim>\<open>
  _, target_bboxes, target_scores, fg_mask, target_gt_idx = self.assigner(
      pred_scores.detach().sigmoid(), (pred_bboxes.detach() * stride_tensor).type(gt_bboxes.dtype),
      anchor_points * stride_tensor, gt_labels, gt_bboxes, mask_gt)
  \<close>
  \<open>assigner_args\<close> are the six arguments of that call, in their order.
\<close>

record assigned =
  target_bboxes :: t3
  target_scores :: t3
  fg_mask :: mask2
  target_gt_idx :: "nat list list"

definition assigner_args :: "library \<Rightarrow> prep \<Rightarrow> (t3 \<times> t3 \<times> t2 \<times> t3 \<times> t3 \<times> t3) option" where
  "assigner_args lib p = do {
     scaled_bboxes \<leftarrow> mul_rows3 (pred_bboxes p) (stride_tensor p);
     scaled_anchors \<leftarrow> mul_rows (anchor_points p) (stride_tensor p);
     Some (map (map (map (sigmoid lib))) (pred_scores p), scaled_bboxes, scaled_anchors,
           gt_labels p, gt_bboxes p, mask_gt p)
   }"

definition assign :: "library \<Rightarrow> 'a Loss_scheme \<Rightarrow> prep \<Rightarrow> assigned option" where
  "assign lib self p = do {
     (a1, a2, a3, a4, a5, a6) \<leftarrow> assigner_args lib p;
     let (_, target_bboxes, target_scores, fg_mask, target_gt_idx) = assigner self a1 a2 a3 a4 a5 a6;
     Some \<lparr>target_bboxes = target_bboxes, target_scores = target_scores, fg_mask = fg_mask,
           target_gt_idx = target_gt_idx\<rparr>
   }"

text \<open>\<open>target_scores_sum = max(target_scores.sum(), 1)\<close>\<close>

definition target_scores_sum :: "assigned \<Rightarrow> real" where
  "target_scores_sum a = py_max (sum3 (target_scores a)) 1"

text \<open>
  Lines 114 to 116: the ground truth keypoints in pixels.
  \<^verbatim>\<open>
  keypoints = batch['keypoints'].to(self.device).float().clone()
  keypoints[:, 0::3] *= imgsz[1]
  keypoints[:, 1::3] *= imgsz[0]
  \<close>
\<close>

definition scaled_keypoints :: "prep \<Rightarrow> batch \<Rightarrow> t2" where
  "scaled_keypoints p batch =
     (let keypoints = b_keypoints batch;
          keypoints = map (slice3_upd 0 (\<lambda>v. v * snd (imgsz p))) keypoints;
          keypoints = map (slice3_upd 1 (\<lambda>v. v * fst (imgsz p))) keypoints
      in keypoints)"

text \<open>
  Lines 119 to 127, for an image \<open>i\<close> with foreground anchors: the four arguments of
  the keypoint loss.
  \<^verbatim>\<open>
  idx = target_gt_idx[i][fg_mask[i]]
  gt_kpt = keypoints[batch_idx.view(-1) == i][idx]  # (n, 51)
  gt_kpt[:, 0::3] /= stride_tensor[fg_mask[i]]
  gt_kpt[:, 1::3] /= stride_tensor[fg_mask[i]]
  xywh = xyxy2xywh(target_bboxes[i][fg_mask[i]])
  area = xywh[:, 2:].prod(1, keepdim=True)
  pred_kpt = self.kpts_decode(anchor_points[fg_mask[i]], pred_kpts[i][fg_mask[i]], xywh)
  kpt_mask = gt_kpt[:, 2::3] != 0
  \<close>
  \<open>tboxes\<close> is \<open>target_bboxes\<close> after its division by the strides, and \<open>bs\<close>
  below is \<open>batch_size\<close>.
\<close>

definition gt_kpt_of :: "prep \<Rightarrow> assigned \<Rightarrow> t2 \<Rightarrow> nat \<Rightarrow> t2 option" where
  "gt_kpt_of p a keypoints i = do {
     fg \<leftarrow> index (fg_mask a) i;
     gt_idx \<leftarrow> index (target_gt_idx a) i;
     idx \<leftarrow> mask_index fg gt_idx;
     own \<leftarrow> mask_index (map (\<lambda>b. b = real i) (batch_idx p)) keypoints;
     gt_kpt \<leftarrow> gather own idx;
     strides \<leftarrow> mask_index fg (stride_tensor p);
     gt_kpt \<leftarrow> islice_rows 0 (\<lambda>v s. v / s) gt_kpt strides;
     strides \<leftarrow> mask_index fg (stride_tensor p);
     gt_kpt \<leftarrow> islice_rows 1 (\<lambda>v s. v / s) gt_kpt strides;
     Some gt_kpt
   }"

definition xywh_of :: "library \<Rightarrow> assigned \<Rightarrow> t3 \<Rightarrow> nat \<Rightarrow> t2 option" where
  "xywh_of lib a tboxes i = do {
     fg \<leftarrow> index (fg_mask a) i;
     boxes \<leftarrow> index tboxes i;
     boxes \<leftarrow> mask_index fg boxes;
     Some (xyxy2xywh lib boxes)
   }"

definition area_of :: "t2 \<Rightarrow> t1" where
  "area_of xywh = map (\<lambda>r. prod_list (drop 2 r)) xywh"

definition pred_kpt_of :: "prep \<Rightarrow> assigned \<Rightarrow> t2 \<Rightarrow> nat \<Rightarrow> t2 option" where
  "pred_kpt_of p a xywh i = do {
     fg \<leftarrow> index (fg_mask a) i;
     anchors \<leftarrow> mask_index fg (anchor_points p);
     kpts \<leftarrow> index (pred_kpts p) i;
     kpts \<leftarrow> mask_index fg kpts;
     kpts_decode anchors kpts xywh
   }"

definition kpt_mask_of :: "t2 \<Rightarrow> mask2" where
  "kpt_mask_of gt_kpt = map (\<lambda>r. map (\<lambda>v. v \<noteq> 0) (slice3 2 r)) gt_kpt"

text \<open>
  The body of the loop over the images, lines 118 to 130.
  \<^verbatim>\<open>
  if fg_mask[i].sum():
      ...
      loss[1] += self.keypoint_loss(pred_kpt, gt_kpt, kpt_mask, area)
      # kpt_score loss
      loss[2] += self.bce_pose(pred_kpt[:, 2::3], kpt_mask.float())
  \<close>
\<close>

definition image_losses ::
  "library \<Rightarrow> PoseLoss \<Rightarrow> prep \<Rightarrow> assigned \<Rightarrow> t2 \<Rightarrow> t3 \<Rightarrow> nat \<Rightarrow> t1 \<Rightarrow> t1 option" where
  "image_losses lib self p a keypoints tboxes i loss = do {
     fg \<leftarrow> index (fg_mask a) i;
     if count_true fg \<noteq> 0 then do {
       gt_kpt \<leftarrow> gt_kpt_of p a keypoints i;
       xywh \<leftarrow> xywh_of lib a tboxes i;
       let area = area_of xywh;
       pred_kpt \<leftarrow> pred_kpt_of p a xywh i;
       let kpt_mask = kpt_mask_of gt_kpt;
       let loss = loss[1 := loss ! 1 + keypoint_loss self pred_kpt gt_kpt kpt_mask area];
       let loss = loss[2 := loss ! 2 +
                    bce_pose self (map (slice3 2) pred_kpt) (map (map float_of_bool) kpt_mask)];
       Some loss
     } else Some loss
   }"

text \<open>
  Lines 110 to 130, the branch taken when \<open>fg_mask.sum()\<close> is not zero: the result is
  the loss vector and \<open>target_bboxes\<close> as the branch leaves them.
  \<^verbatim>\<open>
  target_bboxes /= stride_tensor
  loss[0], loss[4] = self.bbox_loss(pred_distri, pred_bboxes, anchor_points, target_bboxes, target_scores,
                                    target_scores_sum, fg_mask)
  keypoints = ...
  for i in range(batch_size):
      ...
  \<close>
\<close>

definition fg_losses ::
  "library \<Rightarrow> PoseLoss \<Rightarrow> prep \<Rightarrow> assigned \<Rightarrow> batch \<Rightarrow> t1 \<Rightarrow> (t1 \<times> t3) option" where
  "fg_losses lib self p a batch loss = do {
     target_bboxes \<leftarrow> idiv_rows3 (target_bboxes a) (stride_tensor p);
     let (loss_iou, loss_dfl) =
           bbox_loss self (pred_distri p) (pred_bboxes p) (anchor_points p) target_bboxes
             (target_scores a) (target_scores_sum a) (fg_mask a);
     let loss = loss[0 := loss_iou];
     let loss = loss[4 := loss_dfl];
     let keypoints = scaled_keypoints p batch;
     loss \<leftarrow> for_each [0..<batch_size p] (image_losses lib self p a keypoints target_bboxes) loss;
     Some (loss, target_bboxes)
   }"

text \<open>
  Lines 73 to 130: the loss vector before the gains, with \<open>target_bboxes\<close> as the method
  leaves them.
  \<^verbatim>\<open>
  loss = torch.zeros(5, device=self.device)  # box, cls, dfl, kpt_location, kpt_visibility
  ...
  loss[3] = self.bce(pred_scores, target_scores.to(dtype)).sum() / target_scores_sum  # BCE
  if fg_mask.sum():
      ...
  \<close>
\<close>

definition losses_of ::
  "library \<Rightarrow> PoseLoss \<Rightarrow> prep \<Rightarrow> assigned \<Rightarrow> batch \<Rightarrow> (t1 \<times> t3) option" where
  "losses_of lib self p a batch =
     (let loss = replicate 5 0;
          loss = loss[3 := sum3 (bce self (pred_scores p) (target_scores a)) / target_scores_sum a]
      in if sum_list (map count_true (fg_mask a)) \<noteq> 0
         then fg_losses lib self p a batch loss
         else Some (loss, target_bboxes a))"

text \<open>
  Lines 138 to 142.
  \<^verbatim>\<open>
  loss[0] *= self.hyp.box  # box gain
  loss[1] *= self.hyp.box / batch_size  # pose gain
  loss[2] *= self.hyp.box / batch_size  # TODO: pose_score gain
  loss[3] *= self.hyp.cls  # cls gain
  loss[4] *= self.hyp.dfl  # dfl gain
  \<close>
\<close>

definition gains :: "PoseLoss \<Rightarrow> nat \<Rightarrow> t1 \<Rightarrow> t1" where
  "gains self bs loss =
     (let loss = loss[0 := loss ! 0 * box (hyp self)];
          loss = loss[1 := loss ! 1 * (box (hyp self) / real bs)];
          loss = loss[2 := loss ! 2 * (box (hyp self) / real bs)];
          loss = loss[3 := loss ! 3 * cls (hyp self)];
          loss = loss[4 := loss ! 4 * dfl (hyp self)]
      in loss)"

text \<open>
  \<open>PoseLoss.__call__\<close>; \<open>PoseLoss_locals\<close> gives, with the value returned, the tensor
  \<open>target_bboxes\<close> at the end of the call.
  \<^verbatim>\<open>
  return loss.sum() * batch_size, loss.detach()  # loss(box, cls, dfl)
  \<close>
\<close>

definition PoseLoss_raw ::
  "library \<Rightarrow> PoseLoss \<Rightarrow> preds \<Rightarrow> batch \<Rightarrow> (t1 \<times> t3 \<times> nat) option" where
  "PoseLoss_raw lib self preds batch = do {
     p \<leftarrow> prepare lib self preds batch;
     a \<leftarrow> assign lib self p;
     (loss, target_bboxes) \<leftarrow> losses_of lib self p a batch;
     Some (loss, target_bboxes, batch_size p)
   }"

definition PoseLoss_locals ::
  "library \<Rightarrow> PoseLoss \<Rightarrow> preds \<Rightarrow> batch \<Rightarrow> ((real \<times> t1) \<times> t3) option" where
  "PoseLoss_locals lib self preds batch = do {
     (loss, target_bboxes, batch_size) \<leftarrow> PoseLoss_raw lib self preds batch;
     let loss = gains self batch_size loss;
     Some ((sum_list loss * real batch_size, loss), target_bboxes)
   }"

definition PoseLoss_call :: "library \<Rightarrow> PoseLoss \<Rightarrow> preds \<Rightarrow> batch \<Rightarrow> (real \<times> t1) option" where
  "PoseLoss_call lib self preds batch = map_option fst (PoseLoss_locals lib self preds batch)"

section \<open>Specifications\<close>

text \<open>
  What the decoded keypoints are said to be: entry \<open>c\<close> of row \<open>r\<close> is
  \<open>2 * v + anchor - 0.5\<close> with the anchor's x coordinate in the channels \<open>0, 3, 6, ...\<close>
  and its y coordinate in the channels \<open>1, 4, 7, ...\<close>, and the entry \<open>v\<close> itself in the
  visibility channels \<open>2, 5, 8, ...\<close>. The anchor of row \<open>r\<close> is row \<open>r\<close> of the anchor
  points, or their only row when they are broadcast.
\<close>

definition kpts_decode_spec :: "t2 \<Rightarrow> t2 \<Rightarrow> nat \<Rightarrow> nat \<Rightarrow> real" where
  "kpts_decode_spec anchors kpts r c =
     (if c mod 3 = 0
      then 2 * (kpts ! r ! c) + anchors ! (if length anchors = length kpts then r else 0) ! 0 - 0.5
      else if c mod 3 = 1
      then 2 * (kpts ! r ! c) + anchors ! (if length anchors = length kpts then r else 0) ! 1 - 0.5
      else kpts ! r ! c)"

text \<open>
  The keypoint terms of the loss, as they are described: image \<open>i\<close> counts when its row
  of the foreground mask selects an anchor. \<open>gt_rows\<close> are the rows of
  \<open>batch['keypoints']\<close> of the objects assigned to the foreground anchors of image \<open>i\<close>,
  one row per foreground anchor, as the batch gives them.
\<close>

definition has_fg :: "assigned \<Rightarrow> nat \<Rightarrow> bool" where
  "has_fg a i = (case index (fg_mask a) i of Some fg \<Rightarrow> count_true fg \<noteq> 0 | None \<Rightarrow> False)"

definition gt_rows :: "prep \<Rightarrow> assigned \<Rightarrow> batch \<Rightarrow> nat \<Rightarrow> t2 option" where
  "gt_rows p a batch i = do {
     fg \<leftarrow> index (fg_mask a) i;
     gt_idx \<leftarrow> index (target_gt_idx a) i;
     idx \<leftarrow> mask_index fg gt_idx;
     own \<leftarrow> mask_index (map (\<lambda>b. b = real i) (batch_idx p)) (b_keypoints batch);
     gather own idx
   }"

text \<open>
  The ground truth keypoints given to the keypoint loss: x channels times the image
  width, y channels times the image height, both then divided by the stride of the
  anchor of the row; the visibility channels as they are.
\<close>

definition gt_kpt_spec :: "real \<times> real \<Rightarrow> t1 \<Rightarrow> t2 \<Rightarrow> t2" where
  "gt_kpt_spec hw strides rows =
     map2 (\<lambda>row s. map (\<lambda>(c, v).
              if c mod 3 = 0 then v * snd hw / s
              else if c mod 3 = 1 then v * fst hw / s
              else v) (enumerate 0 row)) rows strides"

text \<open>The mask of the keypoints whose ground truth visibility is not zero.\<close>

definition visible :: "t2 \<Rightarrow> mask2" where
  "visible rows = map (\<lambda>row. map (\<lambda>(c, v). v \<noteq> 0) (filter (\<lambda>(c, v). c mod 3 = 2) (enumerate 0 row))) rows"

text \<open>
  The keypoint location term of image \<open>i\<close>: the keypoint loss of the decoded predicted
  keypoints of the foreground anchors, the ground truth keypoints above, the visibility
  mask, and the areas \<open>w * h\<close> of the target boxes in xywh form. \<open>tboxes\<close> are the target
  boxes of the assigner divided by the strides (line 111).
\<close>

definition location_term ::
  "library \<Rightarrow> PoseLoss \<Rightarrow> prep \<Rightarrow> assigned \<Rightarrow> batch \<Rightarrow> t3 \<Rightarrow> nat \<Rightarrow> real option" where
  "location_term lib self p a batch tboxes i = do {
     fg \<leftarrow> index (fg_mask a) i;
     rows \<leftarrow> gt_rows p a batch i;
     strides \<leftarrow> mask_index fg (stride_tensor p);
     boxes \<leftarrow> index tboxes i;
     boxes \<leftarrow> mask_index fg boxes;
     let xywh = xyxy2xywh lib boxes;
     pred_kpt \<leftarrow> pred_kpt_of p a xywh i;
     Some (keypoint_loss self pred_kpt (gt_kpt_spec (imgsz p) strides rows) (visible rows)
             (map (\<lambda>r. prod_list (drop 2 r)) xywh))
   }"

text \<open>
  The keypoint visibility term of image \<open>i\<close>: the visibility channels (every third
  channel from index 2) of the predicted keypoints of the foreground anchors against the
  visibility mask as floats.
\<close>

definition visibility_term ::
  "PoseLoss \<Rightarrow> prep \<Rightarrow> assigned \<Rightarrow> batch \<Rightarrow> nat \<Rightarrow> real option" where
  "visibility_term self p a batch i = do {
     fg \<leftarrow> index (fg_mask a) i;
     rows \<leftarrow> gt_rows p a batch i;
     kpts \<leftarrow> index (pred_kpts p) i;
     kpts \<leftarrow> mask_index fg kpts;
     Some (bce_pose self (map (slice3 2) kpts) (map (map float_of_bool) (visible rows)))
   }"

text \<open>
  The terms of image \<open>i\<close> as the loop body computes them: the pair added to \<open>loss[1]\<close>
  and \<open>loss[2]\<close>.
\<close>

definition image_terms ::
  "library \<Rightarrow> PoseLoss \<Rightarrow> prep \<Rightarrow> assigned \<Rightarrow> t2 \<Rightarrow> t3 \<Rightarrow> nat \<Rightarrow> (real \<times> real) option" where
  "image_terms lib self p a keypoints tboxes i = do {
     fg \<leftarrow> index (fg_mask a) i;
     if count_true fg \<noteq> 0 then do {
       gt_kpt \<leftarrow> gt_kpt_of p a keypoints i;
       xywh \<leftarrow> xywh_of lib a tboxes i;
       pred_kpt \<leftarrow> pred_kpt_of p a xywh i;
       Some (keypoint_loss self pred_kpt gt_kpt (kpt_mask_of gt_kpt) (area_of xywh),
             bce_pose self (map (slice3 2) pred_kpt) (map (map float_of_bool) (kpt_mask_of gt_kpt)))
     } else Some (0, 0)
   }"

text \<open>
  What it means that only the visible keypoints count. \<open>masked m xs\<close> keeps the entries of
  \<open>xs\<close> whose mask entry is true. Two rows of keypoints agree on a mask when their x and y
  channels are the same wherever the mask is true. A keypoint loss honours its mask when
  it gives the same value for ground truth keypoints that agree, row by row, on the
  mask it is given. Two keypoint tensors have the same visible keypoints when their
  visibility channels are the same and their rows agree on the mask of the nonzero
  visibilities.
\<close>

definition masked :: "mask1 \<Rightarrow> 'a list \<Rightarrow> 'a option list" where
  "masked m xs = map2 (\<lambda>b x. if b then Some x else None) m xs"

definition agree_on_mask :: "mask1 \<Rightarrow> t1 \<Rightarrow> t1 \<Rightarrow> bool" where
  "agree_on_mask m row row' \<longleftrightarrow>
     length row = length row' \<and>
     masked m (slice3 0 row) = masked m (slice3 0 row') \<and>
     masked m (slice3 1 row) = masked m (slice3 1 row')"

definition honours_mask :: "(t2 \<Rightarrow> t2 \<Rightarrow> mask2 \<Rightarrow> t1 \<Rightarrow> real) \<Rightarrow> bool" where
  "honours_mask kl \<longleftrightarrow>
     (\<forall>pk g g' m ar.
        length g = length g' \<and> length m = length g \<and>
        (\<forall>r<length g. agree_on_mask (m ! r) (g ! r) (g' ! r)) \<longrightarrow>
        kl pk g m ar = kl pk g' m ar)"

definition same_visible_row :: "t1 \<Rightarrow> t1 \<Rightarrow> bool" where
  "same_visible_row row row' \<longleftrightarrow>
     slice3 2 row = slice3 2 row' \<and>
     agree_on_mask (map (\<lambda>v. v \<noteq> 0) (slice3 2 row)) row row'"

definition same_visible :: "t2 \<Rightarrow> t2 \<Rightarrow> bool" where
  "same_visible kp kp' = list_all2 same_visible_row kp kp'"

text \<open>
  The arguments of the assigner, as they are described. A tensor \<open>t\<close> of rows scaled by the
  stride tensor \<open>c\<close>: entry \<open>k\<close> of row \<open>j\<close> is the entry of \<open>t\<close> times the stride of row \<open>j\<close>,
  where a tensor of a single row, or a single stride, serves every row. The two
  broadcast when they have as many rows as strides, or one of them has a single one.
\<close>

definition times_stride :: "t2 \<Rightarrow> t1 \<Rightarrow> t2" where
  "times_stride t c =
     map (\<lambda>j. map (\<lambda>v. v * c ! (if length c = 1 then 0 else j))
                  (t ! (if length t = 1 then 0 else j)))
       [0..<(if length c = 1 then length t else if length t = 1 then length c else length t)]"

definition broadcasts :: "t2 \<Rightarrow> t1 \<Rightarrow> bool" where
  "broadcasts t c \<longleftrightarrow> length t = length c \<or> length c = 1 \<or> length t = 1"

text \<open>
  The labelled objects of the batch, one row \<open>[image index, class, box]\<close> for each: what
  \<open>preprocess\<close> is given.
\<close>

definition batch_targets :: "batch \<Rightarrow> t2" where
  "batch_targets batch =
     map (\<lambda>j. b_batch_idx batch ! j # b_cls batch ! j # b_bboxes batch ! j)
       [0..<length (b_batch_idx batch)]"

section \<open>A concrete run\<close>

text \<open>
  A loss object, a library, predictions and a batch on which the model can be run: two
  images, one feature map of shape \<open>(2, 5, 1, 2)\<close> with stride 8 (so two anchors and an
  image of height 8 and width 16), one class, \<open>reg_max = 1\<close>, one keypoint, one labelled
  object per image. The functions of the library and of the base class are computable
  stand-ins of the right types, not the functions of the framework.
\<close>

definition sq_err :: "real \<Rightarrow> real \<Rightarrow> real" where
  "sq_err x z = (x - z) * (x - z)"

definition ex_keypoint_loss :: "nat \<Rightarrow> t2 \<Rightarrow> t2 \<Rightarrow> mask2 \<Rightarrow> t1 \<Rightarrow> real" where
  "ex_keypoint_loss n pred gt m area =
     sum_list (map (\<lambda>(pr, gr, mr, ar).
        sum_list (map (\<lambda>(px, py, gx, gy).
                    case (gx, gy) of
                      (Some x, Some y) \<Rightarrow> (sq_err px x + sq_err py y) / ar
                    | _ \<Rightarrow> 0)
          (zip (slice3 0 pr) (zip (slice3 1 pr)
            (zip (masked mr (slice3 0 gr)) (masked mr (slice3 1 gr)))))))
       (zip pred (zip gt (zip m area))))"

definition ex_lib :: library where
  "ex_lib =
     \<lparr>BCEWithLogitsLoss = (\<lambda>x z. sum_list (map sum_list (map2 (map2 sq_err) x z))),
      KeypointLoss = ex_keypoint_loss,
      make_anchors = (\<lambda>feats strides offset. ([[offset, offset], [1 + offset, offset]], [8, 8])),
      xyxy2xywh = map (\<lambda>r. [(r ! 0 + r ! 2) / 2, (r ! 1 + r ! 3) / 2, r ! 2 - r ! 0, r ! 3 - r ! 1]),
      sigmoid = (\<lambda>x. (1 + x / (1 + \<bar>x\<bar>)) / 2)\<rparr>"

definition ex_assigner ::
  "t3 \<Rightarrow> t3 \<Rightarrow> t2 \<Rightarrow> t3 \<Rightarrow> t3 \<Rightarrow> t3 \<Rightarrow> t2 \<times> t3 \<times> t3 \<times> mask2 \<times> nat list list" where
  "ex_assigner scores bboxes anchors labels gts m =
     (map (\<lambda>im. replicate (length anchors) 0) gts,
      map (\<lambda>im. replicate (length anchors) (hd im)) gts,
      [[[1], [0]], [[1/2], [1/2]]],
      [[True, False], [True, True]],
      map (\<lambda>im. replicate (length anchors) 0) gts)"

definition ex_base :: Loss where
  "ex_base =
     \<lparr>hyp = \<lparr>box = 15/2, cls = 1/2, dfl = 3/2\<rparr>,
      stride = [8],
      nc = 1,
      no = 5,
      reg_max = 1,
      preprocess = (\<lambda>targets bs scale.
         map (\<lambda>i. map (\<lambda>r. [r ! 1,
                           (r ! 2 - r ! 4 / 2) * scale ! 0, (r ! 3 - r ! 5 / 2) * scale ! 1,
                           (r ! 2 + r ! 4 / 2) * scale ! 2, (r ! 3 + r ! 5 / 2) * scale ! 3])
                    (filter (\<lambda>r. r ! 0 = real i) targets)) [0..<bs]),
      bbox_decode = (\<lambda>anchors distri.
         map (\<lambda>im. map2 (\<lambda>a d. [a ! 0 - d ! 0, a ! 1 - d ! 1, a ! 0 + d ! 2, a ! 1 + d ! 3]) anchors im)
           distri),
      assigner = ex_assigner,
      bce = map2 (map2 (map2 sq_err)),
      bbox_loss = (\<lambda>distri bboxes anchors tboxes scores s m.
         (sum3 (map2 (map2 (map2 sq_err)) bboxes tboxes) / s, sum3 distri / s))\<rparr>"

definition ex_self :: PoseLoss where
  "ex_self = PoseLoss_init ex_lib ex_base 1"

definition ex_preds :: preds where
  "ex_preds =
     Training
       [[[[[1, 2]], [[0, 1]], [[1, 1]], [[2, 0]], [[3, -1]]],
         [[[0, 0]], [[1, 0]], [[0, 1]], [[1, 1]], [[-2, 4]]]]]
       [[[1, 0], [2, 1], [3, -1]],
        [[0, 1], [1, 0], [2, 2]]]"

definition ex_batch :: batch where
  "ex_batch =
     \<lparr>b_batch_idx = [0, 1],
      b_cls = [0, 0],
      b_bboxes = [[1/2, 1/2, 1/2, 1/2], [1/4, 1/2, 1/4, 1/2]],
      b_keypoints = [[1/2, 1/4, 2], [1/4, 3/4, 0]]\<rparr>"

text \<open>
  The local variables of the run after line 96, what the assigner returns, and the
  target boxes after their division by the strides.
\<close>

definition ex_p :: prep where
  "ex_p =
     \<lparr>pred_distri = [[[1, 0, 1, 2], [2, 1, 1, 0]], [[0, 1, 0, 1], [0, 0, 1, 1]]],
      pred_scores = [[[3], [- 1]], [[- 2], [4]]],
      pred_kpts = [[[1, 2, 3], [0, 1, - 1]], [[0, 1, 2], [1, 0, 2]]],
      imgsz = (8, 16),
      anchor_points = [[1 / 2, 1 / 2], [3 / 2, 1 / 2]],
      stride_tensor = [8, 8],
      batch_size = 2,
      batch_idx = [0, 1],
      gt_labels = [[[0]], [[0]]],
      gt_bboxes = [[[4, 2, 12, 6]], [[2, 2, 6, 6]]],
      mask_gt = [[[1]], [[1]]],
      pred_bboxes =
        [[[- (1 / 2), 1 / 2, 3 / 2, 5 / 2], [- (1 / 2), - (1 / 2), 5 / 2, 1 / 2]],
         [[1 / 2, - (1 / 2), 1 / 2, 3 / 2], [3 / 2, 1 / 2, 5 / 2, 3 / 2]]]\<rparr>"

definition ex_a :: assigned where
  "ex_a =
     \<lparr>target_bboxes = [[[4, 2, 12, 6], [4, 2, 12, 6]], [[2, 2, 6, 6], [2, 2, 6, 6]]],
      target_scores = [[[1], [0]], [[1/2], [1/2]]],
      fg_mask = [[True, False], [True, True]],
      target_gt_idx = [[0, 0], [0, 0]]\<rparr>"

definition ex_tb :: t3 where
  "ex_tb = [[[1/2, 1/4, 3/2, 3/4], [1/2, 1/4, 3/2, 3/4]], [[1/4, 1/4, 3/4, 3/4], [1/4, 1/4, 3/4, 3/4]]]"

text \<open>
  The same loss object with an assigner that finds no foreground anchor and gives all
  target scores as zero.
\<close>

definition ex_assigner0 ::
  "t3 \<Rightarrow> t3 \<Rightarrow> t2 \<Rightarrow> t3 \<Rightarrow> t3 \<Rightarrow> t3 \<Rightarrow> t2 \<times> t3 \<times> t3 \<times> mask2 \<times> nat list list" where
  "ex_assigner0 scores bboxes anchors labels gts m =
     (map (\<lambda>im. replicate (length anchors) 0) gts,
      map (\<lambda>im. replicate (length anchors) (hd im)) gts,
      [[[0], [0]], [[0], [0]]],
      [[False, False], [False, False]],
      map (\<lambda>im. replicate (length anchors) 0) gts)"

definition ex_self0 :: PoseLoss where
  "ex_self0 = ex_self\<lparr>assigner := ex_assigner0\<rparr>"

definition ex_a0 :: assigned where
  "ex_a0 =
     \<lparr>target_bboxes = [[[4, 2, 12, 6], [4, 2, 12, 6]], [[2, 2, 6, 6], [2, 2, 6, 6]]],
      target_scores = [[[0], [0]], [[0], [0]]],
      fg_mask = [[False, False], [False, False]],
      target_gt_idx = [[0, 0], [0, 0]]\<rparr>"

text \<open>
  An assigner that reads its arguments: an anchor is foreground for the first object of
  its image when the anchor point lies in the box of the object and the right edge of
  the predicted box is not left of it; the target scores are the scores it is given, at
  the foreground anchors. With \<open>ex_a_dyn\<close> what it returns in the run.
\<close>

definition ex_assigner_dyn ::
  "t3 \<Rightarrow> t3 \<Rightarrow> t2 \<Rightarrow> t3 \<Rightarrow> t3 \<Rightarrow> t3 \<Rightarrow> t2 \<times> t3 \<times> t3 \<times> mask2 \<times> nat list list" where
  "ex_assigner_dyn scores bboxes anchors labels gts m =
     (let inside = (\<lambda>g a b. g ! 0 \<le> a ! 0 \<and> a ! 0 \<le> g ! 2 \<and> g ! 1 \<le> a ! 1 \<and> a ! 1 \<le> g ! 3 \<and>
                              g ! 0 \<le> b ! 2);
          fg = map2 (\<lambda>im bs. map2 (inside (hd im)) anchors bs) gts bboxes
      in (map (\<lambda>im. replicate (length anchors) 0) gts,
          map (\<lambda>im. replicate (length anchors) (hd im)) gts,
          map2 (map2 (\<lambda>s f. map (\<lambda>v. if f then v else 0) s)) scores fg,
          fg,
          map (\<lambda>im. replicate (length anchors) 0) gts))"

definition ex_self_dyn :: PoseLoss where
  "ex_self_dyn = ex_self\<lparr>assigner := ex_assigner_dyn\<rparr>"

definition ex_a_dyn :: assigned where
  "ex_a_dyn =
     \<lparr>target_bboxes = [[[4, 2, 12, 6], [4, 2, 12, 6]], [[2, 2, 6, 6], [2, 2, 6, 6]]],
      target_scores = [[[7/8], [1/4]], [[1/6], [0]]],
      fg_mask = [[True, True], [True, False]],
      target_gt_idx = [[0, 0], [0, 0]]\<rparr>"

section \<open>Slices, columns and broadcasting\<close>

lemma length_slice3_upd [simp]: "length (slice3_upd s f row) = length row"
  by (simp add: slice3_upd_def)

lemma nth_slice3_upd:
  "j < length row \<Longrightarrow>
     slice3_upd s f row ! j = (if in_slice s 3 j then f (row ! j) else row ! j)"
  by (simp add: slice3_upd_def nth_enumerate_eq)

lemma in_slice_mod3: "s < 3 \<Longrightarrow> in_slice s 3 j \<longleftrightarrow> j mod 3 = s"
  unfolding in_slice_def by presburger

lemma bcast_col_Some:
  assumes "bcast_col n c = Some cs"
  shows "length cs = n" and "r < n \<Longrightarrow> cs ! r = c ! (if length c = n then r else 0)"
  using assms by (cases c; auto simp: bcast_col_def split: if_splits)+

lemma bcast_col_eq_None: "bcast_col n c = None \<longleftrightarrow> length c \<noteq> n \<and> length c \<noteq> 1"
  by (auto simp: bcast_col_def)

lemma islice_rows_Some:
  assumes "islice_rows s f t c = Some t'"
  shows "length t' = length t"
    and "r < length t \<Longrightarrow>
           t' ! r = slice3_upd s (\<lambda>v. f v (c ! (if length c = length t then r else 0))) (t ! r)"
  using assms
  by (auto simp: islice_rows_def bcast_col_Some split: Option.bind_splits)

lemma islice_rows_None: "islice_rows s f t c = None \<longleftrightarrow> length c \<noteq> length t \<and> length c \<noteq> 1"
  by (auto simp: islice_rows_def bcast_col_def split: Option.bind_splits)

lemma col_Some: 
  assumes "col k m = Some c" 
  shows "length c = length m" and "r < length m \<Longrightarrow> c ! r = m ! r ! k"
  using assms by (auto simp: col_def split: if_splits)

lemma col_eq_None: "col k m = None \<longleftrightarrow> \<not> list_all (\<lambda>r. k < length r) m"
  by (auto simp: col_def)

lemma iadd_slice_fresh:
  "iadd_slice (h @ [Y]) (length h) s c = map_option (\<lambda>Y'. h @ [Y']) (islice_rows s (\<lambda>v a. v + a) Y c)"
  by (cases "islice_rows s (\<lambda>v a. v + a) Y c") (simp_all add: iadd_slice_def)

lemma kpts_decode_st_eq:
  assumes "ap < length h"
  shows "kpts_decode_st h ap pk bb =
     (let Y2 = map (slice3_upd 1 (\<lambda>v. v * 2)) (map (slice3_upd 0 (\<lambda>v. v * 2)) (h ! pk))
      in case col 0 (h ! ap) of
           None \<Rightarrow> (None, h @ [Y2])
         | Some a0 \<Rightarrow>
        (case islice_rows 0 (\<lambda>v a. v + a) Y2 (map (\<lambda>v. v - 0.5) a0) of
           None \<Rightarrow> (None, h @ [Y2])
         | Some Y3 \<Rightarrow>
        (case col 1 (h ! ap) of
           None \<Rightarrow> (None, h @ [Y3])
         | Some a1 \<Rightarrow>
        (case islice_rows 1 (\<lambda>v a. v + a) Y3 (map (\<lambda>v. v - 0.5) a1) of
           None \<Rightarrow> (None, h @ [Y3])
         | Some Y4 \<Rightarrow> (Some (length h), h @ [Y4])))))"
  using assms
  by (simp add: kpts_decode_st_def clone_def imul_slice_def iadd_slice_fresh nth_append Let_def
       split: option.splits)


lemma islice_rows_shape:
  assumes "islice_rows s f t c = Some t'"
  shows "length c = length t \<or> length c = 1"
  using assms islice_rows_None [of s f t c] by auto

lemma kpts_decode_st_Some:
  assumes ap: "ap < length h" and run: "kpts_decode_st h ap pk bb = (Some y, h')"
  shows "y = length h \<and> (\<exists>Y. h' = h @ [Y] \<and> length Y = length (h ! pk) \<and>
           (\<forall>r<length (h ! pk). length (Y ! r) = length (h ! pk ! r) \<and>
              (\<forall>c<length (h ! pk ! r). Y ! r ! c = kpts_decode_spec (h ! ap) (h ! pk) r c)))"
proof -
  define Y2 where "Y2 = map (slice3_upd 1 (\<lambda>v. v * 2)) (map (slice3_upd 0 (\<lambda>v. v * 2)) (h ! pk))"
  from run ap obtain a0 Y3 a1 Y4 where
    a0: "col 0 (h ! ap) = Some a0" and
    Y3: "islice_rows 0 (\<lambda>v a. v + a) Y2 (map (\<lambda>v. v - 0.5) a0) = Some Y3" and
    a1: "col 1 (h ! ap) = Some a1" and
    Y4: "islice_rows 1 (\<lambda>v a. v + a) Y3 (map (\<lambda>v. v - 0.5) a1) = Some Y4" and
    res: "y = length h" "h' = h @ [Y4]"
    by (auto simp: kpts_decode_st_eq Let_def Y2_def split: option.splits)
  have len2: "length Y2 = length (h ! pk)" by (simp add: Y2_def)
  have len3: "length Y3 = length (h ! pk)" using islice_rows_Some(1) [OF Y3] len2 by simp
  have len4: "length Y4 = length (h ! pk)" using islice_rows_Some(1) [OF Y4] len3 by simp
  have la0: "length a0 = length (h ! ap)" and la1: "length a1 = length (h ! ap)"
    using col_Some(1) [OF a0] col_Some(1) [OF a1] by simp_all
  have shape: "length (h ! ap) = length (h ! pk) \<or> length (h ! ap) = 1"
    using islice_rows_shape [OF Y3] la0 len2 by simp
  have rows: "length (Y4 ! r) = length (h ! pk ! r) \<and>
              (\<forall>c<length (h ! pk ! r). Y4 ! r ! c = kpts_decode_spec (h ! ap) (h ! pk) r c)"
    if r: "r < length (h ! pk)" for r
  proof -
    let ?k = "if length (h ! ap) = length (h ! pk) then r else 0"
    have k: "?k < length (h ! ap)" using shape r by auto
    have r2: "Y2 ! r = slice3_upd 1 (\<lambda>v. v * 2) (slice3_upd 0 (\<lambda>v. v * 2) (h ! pk ! r))"
      using r by (simp add: Y2_def)
    have r3: "Y3 ! r = slice3_upd 0 (\<lambda>v. v + (h ! ap ! ?k ! 0 - 0.5)) (Y2 ! r)"
      using islice_rows_Some(2) [OF Y3, of r] r len2 la0 k col_Some(2) [OF a0, of ?k]
      by (simp split: if_splits)
    have r4: "Y4 ! r = slice3_upd 1 (\<lambda>v. v + (h ! ap ! ?k ! 1 - 0.5)) (Y3 ! r)"
      using islice_rows_Some(2) [OF Y4, of r] r len3 la1 k col_Some(2) [OF a1, of ?k]
      by (simp split: if_splits)
    have l: "length (Y4 ! r) = length (h ! pk ! r)"
      by (simp add: r4 r3 r2)
    have e: "Y4 ! r ! c = kpts_decode_spec (h ! ap) (h ! pk) r c" if "c < length (h ! pk ! r)" for c
      using that
      by (simp add: r4 r3 r2 nth_slice3_upd in_slice_mod3 kpts_decode_spec_def)
    show ?thesis using l e by blast
  qed
  show ?thesis using res len4 rows by simp
qed

lemma col_eq_Some: "col k m = Some c \<longleftrightarrow> list_all (\<lambda>r. k < length r) m \<and> c = map (\<lambda>r. r ! k) m"
  by (auto simp: col_def)

lemma islice_rows_SomeD:
  assumes "islice_rows s f t c = Some t'"
  shows "length t' = length t \<and> (length c = length t \<or> length c = 1)"
  using islice_rows_Some(1) [OF assms] islice_rows_shape [OF assms] by simp

lemma list_all_two:
  "list_all (\<lambda>r. 2 \<le> length r) m \<longleftrightarrow>
     list_all (\<lambda>r. 0 < length r) m \<and> list_all (\<lambda>r. 1 < length r) m"
  by (induction m) auto

lemma kpts_decode_st_defined:
  assumes "ap < length h"
  shows "fst (kpts_decode_st h ap pk bb) \<noteq> None \<longleftrightarrow>
           list_all (\<lambda>r. 2 \<le> length r) (h ! ap) \<and>
           (length (h ! ap) = length (h ! pk) \<or> length (h ! ap) = 1)"
  using assms
  by (auto simp: kpts_decode_st_eq Let_def list_all_two col_eq_Some col_eq_None islice_rows_None
        split: option.splits dest!: islice_rows_SomeD)

lemma kpts_decode_st_frame:
  assumes "ap < length h"
  shows "\<exists>Y. snd (kpts_decode_st h ap pk bb) = h @ [Y]"
  using assms by (simp add: kpts_decode_st_eq Let_def split: option.splits)

section \<open>The loop over the images\<close>

lemma image_losses_eq:
  "image_losses lib self p a kp tb i loss =
     map_option (\<lambda>(l, v). loss[1 := loss ! 1 + l, 2 := loss ! 2 + v])
       (image_terms lib self p a kp tb i)"
proof (cases "1 < length loss")
  case True
  then show ?thesis
    by (auto simp: image_losses_def image_terms_def Let_def split: Option.bind_splits)
next
  case False
  then show ?thesis
    by (auto simp: image_losses_def image_terms_def Let_def split: Option.bind_splits)
qed

lemma for_each_image_losses:
  assumes "length loss = 5"
  shows "for_each is (image_losses lib self p a kp tb) loss =
           map_option (\<lambda>ts. loss[1 := loss ! 1 + sum_list (map fst ts),
                                2 := loss ! 2 + sum_list (map snd ts)])
             (those (map (image_terms lib self p a kp tb) is))"
  using assms
proof (induction "is" arbitrary: loss)
  case Nil
  then show ?case by simp
next
  case (Cons i rest)
  show ?case
  proof (cases "image_terms lib self p a kp tb i")
    case None
    then show ?thesis by (simp add: image_losses_eq)
  next
    case (Some t)
    obtain l v where t: "t = (l, v)" by (cases t)
    let ?loss = "loss[1 := loss ! 1 + l, 2 := loss ! 2 + v]"
    have len: "length ?loss = 5" using Cons.prems by simp
    show ?thesis
      using Cons.IH [OF len] Cons.prems Some t
      by (cases "those (map (image_terms lib self p a kp tb) rest)")
         (simp_all add: image_losses_eq list_eq_iff_nth_eq nth_list_update add.assoc)
  qed
qed


section \<open>Slices\<close>

lemma enumerate_conv_map: "enumerate 0 row = map (\<lambda>j. (j, row ! j)) [0..<length row]"
  by (rule nth_equalityI) (simp_all add: nth_enumerate_eq)

lemma in_slice_mod3_fun: "s < 3 \<Longrightarrow> in_slice s 3 = (\<lambda>j. j mod 3 = s)"
  by (rule ext) (simp add: in_slice_mod3)

lemma slice3_alt: "slice3 s row = map (\<lambda>j. row ! j) (filter (in_slice s 3) [0..<length row])"
  by (simp add: slice3_def enumerate_conv_map filter_map comp_def)

lemma slice3_cong:
  assumes "length row = length row'"
    and "\<And>j. j < length row \<Longrightarrow> in_slice s 3 j \<Longrightarrow> row ! j = row' ! j"
  shows "slice3 s row = slice3 s row'"
  using assms by (auto simp: slice3_alt)

lemma visible_eq: "visible rows = kpt_mask_of rows"
proof -
  have "map (\<lambda>(c, v). v \<noteq> 0) (filter (\<lambda>(c, v). c mod 3 = 2) (enumerate 0 row)) =
        map (\<lambda>v. v \<noteq> 0) (slice3 2 row)" for row :: t1
    by (simp add: slice3_alt enumerate_conv_map filter_map comp_def in_slice_mod3_fun)
  then show ?thesis
    by (simp add: visible_def kpt_mask_of_def)
qed

section \<open>Masks and gathers\<close>

lemma length_mask_select: "length m = length xs \<Longrightarrow> length (mask_select m xs) = count_true m"
  by (induction m xs rule: list_induct2) (auto simp: mask_select_def count_true_def)

lemma mask_index_length: "mask_index m xs = Some ys \<Longrightarrow> length ys = count_true m"
  by (auto simp: mask_index_def length_mask_select split: if_splits)

lemma mask_index_map: "mask_index m (map f xs) = map_option (map f) (mask_index m xs)"
proof -
  have "mask_select m (map f xs) = map f (mask_select m xs)"
    by (simp add: mask_select_def zip_map2 filter_map comp_def case_prod_beta)
  then show ?thesis by (simp add: mask_index_def)
qed

lemma gather_map: "gather (map f xs) idx = map_option (map f) (gather xs idx)"
  by (auto simp: gather_def list_all_iff)

lemma gather_length: "gather xs idx = Some ys \<Longrightarrow> length ys = length idx"
  by (auto simp: gather_def split: if_splits)

lemma islice_rows_same_length:
  assumes "length c = length t"
  shows "islice_rows s f t c = Some (map2 (\<lambda>row a. slice3_upd s (\<lambda>v. f v a) row) t c)"
  using assms by (simp add: islice_rows_def bcast_col_def)


section \<open>The decoded keypoints\<close>

lemma kpts_decode_Some:
  assumes "kpts_decode an kp bb = Some y"
  shows "length y = length kp"
    and "r < length kp \<Longrightarrow> length (y ! r) = length (kp ! r)"
    and "r < length kp \<Longrightarrow> c < length (kp ! r) \<Longrightarrow> y ! r ! c = kpts_decode_spec an kp r c"
proof -
  obtain res h' where run: "kpts_decode_st [an, kp, bb] 0 1 2 = (res, h')"
    by (cases "kpts_decode_st [an, kp, bb] 0 1 2")
  with assms obtain a where res: "res = Some a" and y: "y = h' ! a"
    by (auto simp: kpts_decode_def split: option.splits)
  have "0 < length [an, kp, bb]" by simp
  from kpts_decode_st_Some [OF this run [unfolded res]]
  obtain Y where a: "a = 3" and h': "h' = [an, kp, bb] @ [Y]"
    and len: "length Y = length kp"
    and rows: "\<forall>r<length kp. length (Y ! r) = length (kp ! r) \<and>
                 (\<forall>c<length (kp ! r). Y ! r ! c = kpts_decode_spec an kp r c)"
    by auto
  have "y = Y" using y a h' by simp
  with len rows show "length y = length kp"
    and "r < length kp \<Longrightarrow> length (y ! r) = length (kp ! r)"
    and "r < length kp \<Longrightarrow> c < length (kp ! r) \<Longrightarrow> y ! r ! c = kpts_decode_spec an kp r c"
    by auto
qed

lemma kpts_decode_visibility:
  assumes "kpts_decode an kp bb = Some y"
  shows "map (slice3 2) y = map (slice3 2) kp"
proof (rule nth_equalityI)
  show "length (map (slice3 2) y) = length (map (slice3 2) kp)"
    using kpts_decode_Some(1) [OF assms] by simp
next
  fix r assume "r < length (map (slice3 2) y)"
  then have r: "r < length kp" using kpts_decode_Some(1) [OF assms] by simp
  have "slice3 2 (y ! r) = slice3 2 (kp ! r)"
  proof (rule slice3_cong)
    show "length (y ! r) = length (kp ! r)" using kpts_decode_Some(2) [OF assms r] .
  next
    fix j assume "j < length (y ! r)" and "in_slice 2 3 j"
    then show "y ! r ! j = kp ! r ! j"
      using kpts_decode_Some(2) [OF assms r] kpts_decode_Some(3) [OF assms r, of j]
      by (simp add: kpts_decode_spec_def in_slice_mod3)
  qed
  then show "map (slice3 2) y ! r = map (slice3 2) kp ! r"
    using r kpts_decode_Some(1) [OF assms] by simp
qed

section \<open>The ground truth keypoints\<close>

lemma gt_row_spec:
  "slice3_upd 1 (\<lambda>v. v / s) (slice3_upd 0 (\<lambda>v. v / s)
     (slice3_upd 1 (\<lambda>v. v * h) (slice3_upd 0 (\<lambda>v. v * w) row))) =
   map (\<lambda>(c, v). if c mod 3 = 0 then v * w / s else if c mod 3 = 1 then v * h / s else v)
     (enumerate 0 row)"
  by (rule nth_equalityI) (simp_all add: nth_slice3_upd in_slice_mod3 nth_enumerate_eq)

lemma gt_kpt_of_spec:
  assumes "gt_kpt_of p a (scaled_keypoints p batch) i = Some g"
  shows "\<exists>fg rows strides. index (fg_mask a) i = Some fg \<and> gt_rows p a batch i = Some rows \<and>
           mask_index fg (stride_tensor p) = Some strides \<and> length strides = length rows \<and>
           g = gt_kpt_spec (imgsz p) strides rows"
proof -
  let ?f = "\<lambda>row. slice3_upd 1 (\<lambda>v. v * fst (imgsz p)) (slice3_upd 0 (\<lambda>v. v * snd (imgsz p)) row)"
  have sk: "scaled_keypoints p batch = map ?f (b_keypoints batch)"
    by (simp add: scaled_keypoints_def Let_def)
  from assms obtain fg gt_idx idx own rows strides g1 where
    fg: "index (fg_mask a) i = Some fg" and
    gi: "index (target_gt_idx a) i = Some gt_idx" and
    idx: "mask_index fg gt_idx = Some idx" and
    own: "mask_index (map (\<lambda>b. b = real i) (batch_idx p)) (b_keypoints batch) = Some own" and
    rows: "gather own idx = Some rows" and
    st: "mask_index fg (stride_tensor p) = Some strides" and
    g1: "islice_rows 0 (\<lambda>v s. v / s) (map ?f rows) strides = Some g1" and
    g: "islice_rows 1 (\<lambda>v s. v / s) g1 strides = Some g"
    by (auto simp: gt_kpt_of_def sk mask_index_map gather_map split: Option.bind_splits)
  have len: "length strides = length rows"
    using mask_index_length [OF st] mask_index_length [OF idx] gather_length [OF rows] by simp
  have g1': "g1 = map2 (\<lambda>row s. slice3_upd 0 (\<lambda>v. v / s) row) (map ?f rows) strides"
    using g1 len by (simp add: islice_rows_same_length)
  have g': "g = map2 (\<lambda>row s. slice3_upd 1 (\<lambda>v. v / s) row) g1 strides"
    using g len g1' by (simp add: islice_rows_same_length)
  have "g = gt_kpt_spec (imgsz p) strides rows"
  proof (rule nth_equalityI)
    show "length g = length (gt_kpt_spec (imgsz p) strides rows)"
      using len by (simp add: g' g1' gt_kpt_spec_def)
  next
    fix r assume "r < length g"
    then have r: "r < length rows" using len by (simp add: g' g1')
    show "g ! r = gt_kpt_spec (imgsz p) strides rows ! r"
      using r len gt_row_spec [of "strides ! r" "fst (imgsz p)" "snd (imgsz p)" "rows ! r"]
      by (simp add: g' g1' gt_kpt_spec_def)
  qed
  moreover have "gt_rows p a batch i = Some rows"
    using fg gi idx own rows by (simp add: gt_rows_def)
  ultimately show ?thesis using fg st len by blast
qed

lemma kpt_mask_of_spec:
  assumes "length strides = length rows"
  shows "kpt_mask_of (gt_kpt_spec hw strides rows) = visible rows"
proof -
  have "slice3 2 (gt_kpt_spec hw strides rows ! r) = slice3 2 (rows ! r)" if "r < length rows" for r
    using that assms
    by (intro slice3_cong) (simp_all add: gt_kpt_spec_def nth_enumerate_eq in_slice_mod3)
  then have eq: "map (slice3 2) (gt_kpt_spec hw strides rows) = map (slice3 2) rows"
    using assms by (intro nth_equalityI) (simp_all add: gt_kpt_spec_def)
  have "kpt_mask_of (gt_kpt_spec hw strides rows) =
          map (map (\<lambda>v. v \<noteq> 0)) (map (slice3 2) (gt_kpt_spec hw strides rows))"
    by (simp add: kpt_mask_of_def)
  also have "\<dots> = map (map (\<lambda>v. v \<noteq> 0)) (map (slice3 2) rows)"
    by (simp only: eq)
  also have "\<dots> = kpt_mask_of rows"
    by (simp add: kpt_mask_of_def)
  finally have "kpt_mask_of (gt_kpt_spec hw strides rows) = kpt_mask_of rows" .
  then show ?thesis by (simp add: visible_eq)
qed


section \<open>The terms of an image\<close>

lemma image_terms_fg:
  assumes "image_terms lib self p a (scaled_keypoints p batch) tb i = Some (l, v)"
    and "has_fg a i"
  shows "location_term lib self p a batch tb i = Some l"
    and "visibility_term self p a batch i = Some v"
proof -
  from assms obtain fg g xywh pk where
    fg: "index (fg_mask a) i = Some fg" and
    g: "gt_kpt_of p a (scaled_keypoints p batch) i = Some g" and
    xywh: "xywh_of lib a tb i = Some xywh" and
    pk: "pred_kpt_of p a xywh i = Some pk" and
    l: "l = keypoint_loss self pk g (kpt_mask_of g) (area_of xywh)" and
    v: "v = bce_pose self (map (slice3 2) pk) (map (map float_of_bool) (kpt_mask_of g))"
    by (auto simp: image_terms_def has_fg_def split: Option.bind_splits if_splits)
  from gt_kpt_of_spec [OF g] fg obtain rows strides where
    rows: "gt_rows p a batch i = Some rows" and
    st: "mask_index fg (stride_tensor p) = Some strides" and
    len: "length strides = length rows" and
    g': "g = gt_kpt_spec (imgsz p) strides rows"
    by auto
  have mask: "kpt_mask_of (gt_kpt_spec (imgsz p) strides rows) = visible rows"
    using kpt_mask_of_spec [OF len] by simp
  from xywh fg obtain boxes sel where
    boxes: "index tb i = Some boxes" and sel: "mask_index fg boxes = Some sel" and
    xywh': "xywh = xyxy2xywh lib sel"
    by (auto simp: xywh_of_def split: Option.bind_splits)
  show "location_term lib self p a batch tb i = Some l"
    using fg rows st boxes sel pk
    by (simp add: location_term_def l g' mask xywh' area_of_def)
  from pk fg obtain anchors kps ksel where
    kps: "index (pred_kpts p) i = Some kps" and ksel: "mask_index fg kps = Some ksel" and
    dec: "kpts_decode anchors ksel xywh = Some pk"
    by (auto simp: pred_kpt_of_def split: Option.bind_splits)
  show "visibility_term self p a batch i = Some v"
    using fg rows kps ksel kpts_decode_visibility [OF dec]
    by (simp add: visibility_term_def v g' mask)
qed

lemma image_terms_no_fg:
  assumes "image_terms lib self p a kp tb i = Some (l, v)" and "\<not> has_fg a i"
  shows "l = 0" and "v = 0"
  using assms
  by (auto simp: image_terms_def has_fg_def split: Option.bind_splits if_splits)

lemma those_Cons:
  "those (x # xs) = Some ys \<longleftrightarrow> (\<exists>y ys'. x = Some y \<and> those xs = Some ys' \<and> ys = y # ys')"
  by (cases x) auto

lemma those_filter_sum:
  assumes "those (map f js) = Some ts"
    and "\<And>j t. j \<in> set js \<Longrightarrow> f j = Some t \<Longrightarrow> P j \<Longrightarrow> g j = Some (pr t)"
    and "\<And>j t. j \<in> set js \<Longrightarrow> f j = Some t \<Longrightarrow> \<not> P j \<Longrightarrow> pr t = (0::real)"
  shows "\<exists>ls. those (map g (filter P js)) = Some ls \<and> sum_list ls = sum_list (map pr ts)"
  using assms
proof (induction js arbitrary: ts)
  case Nil
  then show ?case by simp
next
  case (Cons j js)
  from Cons.prems(1) obtain t ts' where
    t: "f j = Some t" and ts': "those (map f js) = Some ts'" and ts: "ts = t # ts'"
    by (auto split: option.splits)
  from Cons.IH [OF ts'] Cons.prems(2,3) obtain ls where
    ls: "those (map g (filter P js)) = Some ls" "sum_list ls = sum_list (map pr ts')"
    by (metis list.set_intros(2))
  show ?case
  proof (cases "P j")
    case True
    then have "g j = Some (pr t)" using Cons.prems(2) [of j t] t by simp
    then show ?thesis using True ls ts by simp
  next
    case False
    then have "pr t = 0" using Cons.prems(3) [of j t] t by simp
    then show ?thesis using False ls ts by simp
  qed
qed

lemma image_terms_sums:
  assumes "those (map (image_terms lib self p a (scaled_keypoints p batch) tb) js) = Some ts"
  shows "\<exists>ls. those (map (location_term lib self p a batch tb) (filter (has_fg a) js)) = Some ls \<and>
              sum_list ls = sum_list (map fst ts)"
    and "\<exists>vs. those (map (visibility_term self p a batch) (filter (has_fg a) js)) = Some vs \<and>
              sum_list vs = sum_list (map snd ts)"
proof -
  show "\<exists>ls. those (map (location_term lib self p a batch tb) (filter (has_fg a) js)) = Some ls \<and>
              sum_list ls = sum_list (map fst ts)"
  proof (rule those_filter_sum [OF assms])
    fix j t assume "image_terms lib self p a (scaled_keypoints p batch) tb j = Some t" "has_fg a j"
    then show "location_term lib self p a batch tb j = Some (fst t)"
      using image_terms_fg(1) [of lib self p a batch tb j "fst t" "snd t"] by simp
  next
    fix j t assume "image_terms lib self p a (scaled_keypoints p batch) tb j = Some t" "\<not> has_fg a j"
    then show "fst t = 0"
      using image_terms_no_fg(1) [of lib self p a _ tb j "fst t" "snd t"] by simp
  qed
  show "\<exists>vs. those (map (visibility_term self p a batch) (filter (has_fg a) js)) = Some vs \<and>
              sum_list vs = sum_list (map snd ts)"
  proof (rule those_filter_sum [OF assms])
    fix j t assume "image_terms lib self p a (scaled_keypoints p batch) tb j = Some t" "has_fg a j"
    then show "visibility_term self p a batch j = Some (snd t)"
      using image_terms_fg(2) [of lib self p a batch tb j "fst t" "snd t"] by simp
  next
    fix j t assume "image_terms lib self p a (scaled_keypoints p batch) tb j = Some t" "\<not> has_fg a j"
    then show "snd t = 0"
      using image_terms_no_fg(2) [of lib self p a _ tb j "fst t" "snd t"] by simp
  qed
qed


section \<open>The loss vector\<close>

lemma list5: "length xs = 5 \<Longrightarrow> \<exists>a b c d e. xs = [a, b, c, d, e]"
  by (auto simp: numeral_eq_Suc length_Suc_conv)

lemma gains_eq:
  assumes "length raw = 5"
  shows "gains self bs raw =
           [raw ! 0 * box (hyp self), raw ! 1 * (box (hyp self) / real bs),
            raw ! 2 * (box (hyp self) / real bs), raw ! 3 * cls (hyp self),
            raw ! 4 * dfl (hyp self)]"
proof -
  from list5 [OF assms] obtain a b c d e where "raw = [a, b, c, d, e]" by blast
  then show ?thesis by (simp add: gains_def)
qed

lemma has_fg_total:
  assumes "has_fg a i"
  shows "sum_list (map count_true (fg_mask a)) \<noteq> 0"
proof -
  from assms obtain fg where "index (fg_mask a) i = Some fg" "count_true fg \<noteq> 0"
    by (auto simp: has_fg_def split: option.splits)
  then have "fg \<in> set (fg_mask a)" by (auto simp: index_def split: if_splits)
  with \<open>count_true fg \<noteq> 0\<close> show ?thesis by auto
qed

lemma losses_of_no_fg:
  assumes "sum_list (map count_true (fg_mask a)) = 0"
  shows "losses_of lib self p a batch =
           Some ([0, 0, 0, sum3 (bce self (pred_scores p) (target_scores a)) / target_scores_sum a, 0],
                 target_bboxes a)"
  using assms by (simp add: losses_of_def Let_def numeral_eq_Suc)

lemma losses_of_fg:
  assumes "sum_list (map count_true (fg_mask a)) \<noteq> 0"
    and "losses_of lib self p a batch = Some (raw, tb)"
  shows "idiv_rows3 (target_bboxes a) (stride_tensor p) = Some tb \<and>
         (\<exists>ts. those (map (image_terms lib self p a (scaled_keypoints p batch) tb) [0..<batch_size p]) = Some ts \<and>
            raw = [fst (bbox_loss self (pred_distri p) (pred_bboxes p) (anchor_points p) tb
                          (target_scores a) (target_scores_sum a) (fg_mask a)),
                   sum_list (map fst ts),
                   sum_list (map snd ts),
                   sum3 (bce self (pred_scores p) (target_scores a)) / target_scores_sum a,
                   snd (bbox_loss self (pred_distri p) (pred_bboxes p) (anchor_points p) tb
                          (target_scores a) (target_scores_sum a) (fg_mask a))])"
proof -
  let ?c = "sum3 (bce self (pred_scores p) (target_scores a)) / target_scores_sum a"
  let ?bl = "bbox_loss self (pred_distri p) (pred_bboxes p) (anchor_points p) tb
               (target_scores a) (target_scores_sum a) (fg_mask a)"
  have init: "(replicate 5 (0::real))[3 := ?c] = [0, 0, 0, ?c, 0]"
    by (simp add: numeral_eq_Suc)
  from assms have fg: "fg_losses lib self p a batch [0, 0, 0, ?c, 0] = Some (raw, tb)"
    by (simp add: losses_of_def Let_def init)
  then obtain tb' where tb': "idiv_rows3 (target_bboxes a) (stride_tensor p) = Some tb'"
    by (auto simp: fg_losses_def split: Option.bind_splits)
  from fg tb' have "tb' = tb"
    by (auto simp: fg_losses_def Let_def split: Option.bind_splits prod.splits)
  with fg tb' show ?thesis
    by (auto simp: fg_losses_def Let_def for_each_image_losses split: Option.bind_splits prod.splits)
qed

section \<open>The call\<close>

lemma cat_views_Some:
  assumes "cat_views c feats = Some x"
  shows "\<exists>x0 rest. feats = x0 # rest \<and> length x = length x0 \<and> 0 < length x0"
  using assms by (auto simp: cat_views_def split: list.splits if_splits)

lemma prepare_Some:
  assumes "prepare lib self preds batch = Some p"
  shows "\<exists>x0 rest. fst (split_preds preds) = x0 # rest \<and> batch_size p = length x0 \<and> 0 < length x0"
    and "\<exists>x. cat_views (no self) (fst (split_preds preds)) = Some x \<and>
            pred_scores p = map transpose (map (drop (reg_max self * 4)) x)"
    and "pred_kpts p = map transpose (snd (split_preds preds))"
    and "batch_idx p = b_batch_idx batch"
  using assms
  by (auto simp: prepare_def Let_def split: Option.bind_splits prod.splits dest!: cat_views_Some)

lemma prepare_assigner [simp]:
  "prepare lib (self\<lparr>assigner := A\<rparr>) preds batch = prepare lib self preds batch"
  by (simp add: prepare_def)

lemma PoseLoss_raw_Some:
  "PoseLoss_raw lib self preds batch = Some (raw, tb, bs) \<longleftrightarrow>
     (\<exists>p a. prepare lib self preds batch = Some p \<and> assign lib self p = Some a \<and>
            losses_of lib self p a batch = Some (raw, tb) \<and> bs = batch_size p)"
  by (auto simp: PoseLoss_raw_def split: Option.bind_splits)

lemma PoseLoss_locals_Some:
  "PoseLoss_locals lib self preds batch = Some ((tot, items), tb) \<longleftrightarrow>
     (\<exists>raw bs. PoseLoss_raw lib self preds batch = Some (raw, tb, bs) \<and>
        items = gains self bs raw \<and> tot = sum_list items * real bs)"
  by (auto simp: PoseLoss_locals_def Let_def split: Option.bind_splits)

lemma PoseLoss_call_Some:
  "PoseLoss_call lib self preds batch = Some res \<longleftrightarrow>
     (\<exists>tb. PoseLoss_locals lib self preds batch = Some (res, tb))"
  by (cases "PoseLoss_locals lib self preds batch") (auto simp: PoseLoss_call_def)

lemma losses_of_length:
  assumes "losses_of lib self p a batch = Some (raw, tb)"
  shows "length raw = 5"
proof (cases "sum_list (map count_true (fg_mask a)) = 0")
  case True
  with assms show ?thesis by (auto simp: losses_of_no_fg)
next
  case False
  from losses_of_fg [OF False assms] show ?thesis by auto
qed

lemma losses_of_cls:
  assumes "losses_of lib self p a batch = Some (raw, tb)"
  shows "raw ! 3 = sum3 (bce self (pred_scores p) (target_scores a)) / target_scores_sum a"
proof (cases "sum_list (map count_true (fg_mask a)) = 0")
  case True
  with assms show ?thesis by (auto simp: losses_of_no_fg)
next
  case False
  from losses_of_fg [OF False assms] show ?thesis by auto
qed

lemma filter_has_fg_empty:
  assumes "sum_list (map count_true (fg_mask a)) = 0"
  shows "filter (has_fg a) js = []"
  using assms has_fg_total [of a] by (auto simp: filter_empty_conv)

lemma losses_of_keypoints:
  assumes "losses_of lib self p a batch = Some (raw, tb)"
  shows "\<exists>ls. those (map (location_term lib self p a batch tb)
                  (filter (has_fg a) [0..<batch_size p])) = Some ls \<and> raw ! 1 = sum_list ls"
    and "\<exists>vs. those (map (visibility_term self p a batch)
                  (filter (has_fg a) [0..<batch_size p])) = Some vs \<and> raw ! 2 = sum_list vs"
proof -
  have "(\<exists>ls. those (map (location_term lib self p a batch tb)
                  (filter (has_fg a) [0..<batch_size p])) = Some ls \<and> raw ! 1 = sum_list ls) \<and>
        (\<exists>vs. those (map (visibility_term self p a batch)
                  (filter (has_fg a) [0..<batch_size p])) = Some vs \<and> raw ! 2 = sum_list vs)"
  proof (cases "sum_list (map count_true (fg_mask a)) = 0")
    case True
    with assms show ?thesis by (auto simp: losses_of_no_fg filter_has_fg_empty)
  next
    case False
    from losses_of_fg [OF False assms] obtain ts where
      ts: "those (map (image_terms lib self p a (scaled_keypoints p batch) tb) [0..<batch_size p]) = Some ts"
      and r1: "raw ! 1 = sum_list (map fst ts)" and r2: "raw ! 2 = sum_list (map snd ts)"
      by auto
    from image_terms_sums [OF ts] r1 r2 show ?thesis by auto
  qed
  then show "\<exists>ls. those (map (location_term lib self p a batch tb)
                  (filter (has_fg a) [0..<batch_size p])) = Some ls \<and> raw ! 1 = sum_list ls"
    and "\<exists>vs. those (map (visibility_term self p a batch)
                  (filter (has_fg a) [0..<batch_size p])) = Some vs \<and> raw ! 2 = sum_list vs"
    by blast+
qed

lemma losses_of_assigner [simp]:
  "losses_of lib (self\<lparr>assigner := A\<rparr>) p a batch = losses_of lib self p a batch"
proof -
  have "image_losses lib (self\<lparr>assigner := A\<rparr>) p a kp tb = image_losses lib self p a kp tb" for kp tb
    by (simp add: fun_eq_iff image_losses_def Let_def cong: if_cong)
  then have "fg_losses lib (self\<lparr>assigner := A\<rparr>) p a batch loss = fg_losses lib self p a batch loss" for loss
    by (simp add: fg_losses_def)
  then show ?thesis by (simp add: losses_of_def Let_def cong: if_cong)
qed

lemma gains_assigner [simp]: "gains (self\<lparr>assigner := A\<rparr>) bs loss = gains self bs loss"
  by (simp add: gains_def)

lemma PoseLoss_raw_unfold:
  assumes "prepare lib self preds batch = Some p"
  shows "PoseLoss_raw lib self preds batch =
           (case mul_rows3 (pred_bboxes p) (stride_tensor p) of
              None \<Rightarrow> None
            | Some sb \<Rightarrow>
           (case mul_rows (anchor_points p) (stride_tensor p) of
              None \<Rightarrow> None
            | Some sa \<Rightarrow>
           (case assigner self (map (map (map (sigmoid lib))) (pred_scores p)) sb sa
                   (gt_labels p) (gt_bboxes p) (mask_gt p) of
              (lb, tb0, ts, fg, idx) \<Rightarrow>
                map_option (\<lambda>(loss, tb). (loss, tb, batch_size p))
                  (losses_of lib self p
                     \<lparr>target_bboxes = tb0, target_scores = ts, fg_mask = fg, target_gt_idx = idx\<rparr>
                     batch))))"
  using assms
  by (auto simp: PoseLoss_raw_def assign_def assigner_args_def Let_def
        split: option.splits prod.splits Option.bind_splits)

section \<open>Keypoints that are not visible\<close>

lemma gt_kpt_of_eq:
  "gt_kpt_of p a (scaled_keypoints p batch) i = do {
     fg \<leftarrow> index (fg_mask a) i;
     rows \<leftarrow> gt_rows p a batch i;
     strides \<leftarrow> mask_index fg (stride_tensor p);
     Some (gt_kpt_spec (imgsz p) strides rows)
   }" (is "?l = ?r")
proof (cases ?l)
  case (Some g)
  from gt_kpt_of_spec [OF Some] show ?thesis
    by (auto simp: Some)
next
  case None
  have "?r = None"
  proof (rule ccontr)
    assume "?r \<noteq> None"
    then obtain fg rows strides where
      fg: "index (fg_mask a) i = Some fg" and rows: "gt_rows p a batch i = Some rows" and
      st: "mask_index fg (stride_tensor p) = Some strides"
      by (auto split: Option.bind_splits)
    from rows fg obtain gt_idx idx own where
      gi: "index (target_gt_idx a) i = Some gt_idx" and
      idx: "mask_index fg gt_idx = Some idx" and
      own: "mask_index (map (\<lambda>b. b = real i) (batch_idx p)) (b_keypoints batch) = Some own" and
      ga: "gather own idx = Some rows"
      by (auto simp: gt_rows_def split: Option.bind_splits)
    have len: "length strides = length rows"
      using mask_index_length [OF st] mask_index_length [OF idx] gather_length [OF ga] by simp
    have "?l \<noteq> None"
      using fg gi idx own ga st len
      by (simp add: gt_kpt_of_def scaled_keypoints_def Let_def mask_index_map gather_map
            islice_rows_same_length)
    with None show False by simp
  qed
  with None show ?thesis by simp
qed

lemma gt_rows_lengths:
  assumes "gt_rows p a batch i = Some rows" and "index (fg_mask a) i = Some fg"
    and "mask_index fg (stride_tensor p) = Some strides"
  shows "length strides = length rows"
proof -
  from assms(1,2) obtain gt_idx idx own where
    idx: "mask_index fg gt_idx = Some idx" and ga: "gather own idx = Some rows"
    by (auto simp: gt_rows_def split: Option.bind_splits)
  show ?thesis
    using mask_index_length [OF assms(3)] mask_index_length [OF idx] gather_length [OF ga] by simp
qed

lemma image_terms_eq:
  "image_terms lib self p a (scaled_keypoints p batch) tb i = do {
     fg \<leftarrow> index (fg_mask a) i;
     if count_true fg \<noteq> 0 then do {
       rows \<leftarrow> gt_rows p a batch i;
       strides \<leftarrow> mask_index fg (stride_tensor p);
       xywh \<leftarrow> xywh_of lib a tb i;
       pred_kpt \<leftarrow> pred_kpt_of p a xywh i;
       Some (keypoint_loss self pred_kpt (gt_kpt_spec (imgsz p) strides rows) (visible rows)
               (area_of xywh),
             bce_pose self (map (slice3 2) pred_kpt) (map (map float_of_bool) (visible rows)))
     } else Some (0, 0)
   }"
proof (cases "index (fg_mask a) i")
  case None
  then show ?thesis by (simp add: image_terms_def)
next
  case (Some fg)
  show ?thesis
  proof (cases "gt_rows p a batch i")
    case None
    then show ?thesis using Some by (simp add: image_terms_def gt_kpt_of_eq)
  next
    case rows: (Some rows)
    show ?thesis
    proof (cases "mask_index fg (stride_tensor p)")
      case None
      then show ?thesis using Some rows by (simp add: image_terms_def gt_kpt_of_eq)
    next
      case st: (Some strides)
      have "kpt_mask_of (gt_kpt_spec (imgsz p) strides rows) = visible rows"
        using kpt_mask_of_spec [OF gt_rows_lengths [OF rows Some st]] .
      then show ?thesis using Some rows st by (simp add: image_terms_def gt_kpt_of_eq)
    qed
  qed
qed

lemma mask_select_all2:
  "list_all2 R xs ys \<Longrightarrow> list_all2 R (mask_select m xs) (mask_select m ys)"
proof (induction xs ys arbitrary: m rule: list_all2_induct)
  case Nil
  then show ?case by (simp add: mask_select_def)
next
  case (Cons x xs y ys)
  then show ?case
    by (cases m) (auto simp: mask_select_def)
qed

lemma mask_index_all2:
  assumes "list_all2 R xs ys"
  shows "rel_option (list_all2 R) (mask_index m xs) (mask_index m ys)"
  using assms mask_select_all2 [OF assms, of m] list_all2_lengthD [OF assms]
  by (simp add: mask_index_def)

lemma gather_all2:
  assumes "list_all2 R xs ys"
  shows "rel_option (list_all2 R) (gather xs idx) (gather ys idx)"
proof -
  have len: "length xs = length ys" using list_all2_lengthD [OF assms] .
  show ?thesis
  proof (cases "list_all (\<lambda>j. j < length xs) idx")
    case True
    then have "list_all2 R (map (\<lambda>j. xs ! j) idx) (map (\<lambda>j. ys ! j) idx)"
      using assms by (auto simp: list_all2_map1 list_all2_map2 list_all2_same list_all_iff
          dest: list_all2_nthD)
    then show ?thesis using True len by (simp add: gather_def)
  next
    case False
    then show ?thesis using len by (simp add: gather_def)
  qed
qed

lemma gt_rows_same_visible:
  assumes "same_visible (b_keypoints batch) kp'"
  shows "rel_option same_visible (gt_rows p a batch i) (gt_rows p a (batch\<lparr>b_keypoints := kp'\<rparr>) i)"
proof -
  let ?M = "map (\<lambda>b. b = real i) (batch_idx p)"
  have own: "rel_option (list_all2 same_visible_row) (mask_index ?M (b_keypoints batch)) (mask_index ?M kp')"
    using mask_index_all2 assms unfolding same_visible_def by blast
  show ?thesis
  proof (cases "index (fg_mask a) i")
    case None
    then show ?thesis by (simp add: gt_rows_def)
  next
    case fg: (Some fg)
    show ?thesis
    proof (cases "index (target_gt_idx a) i")
      case None
      then show ?thesis using fg by (simp add: gt_rows_def)
    next
      case gi: (Some gt_idx)
      show ?thesis
      proof (cases "mask_index fg gt_idx")
        case None
        then show ?thesis using fg gi by (simp add: gt_rows_def)
      next
        case idx: (Some idx)
        show ?thesis
        proof (cases "mask_index ?M (b_keypoints batch)")
          case None
          with own have "mask_index ?M kp' = None" by simp
          with None show ?thesis using fg gi idx by (simp add: gt_rows_def)
        next
          case (Some own1)
          with own obtain own2 where o2: "mask_index ?M kp' = Some own2"
            and rel: "list_all2 same_visible_row own1 own2"
            by (auto simp: option_rel_Some1)
          from gather_all2 [OF rel, of idx] show ?thesis
            using fg gi idx Some o2 by (simp add: gt_rows_def same_visible_def [abs_def])
        qed
      qed
    qed
  qed
qed

lemma slice3_enumerate_map:
  "slice3 s (map (\<lambda>(c, v). F c v) (enumerate 0 row)) =
     map (\<lambda>j. F j (row ! j)) (filter (in_slice s 3) [0..<length row])"
  by (simp add: slice3_alt nth_enumerate_eq cong: map_cong)

lemma masked_map: "masked m (map f xs) = map (map_option f) (masked m xs)"
  by (simp add: masked_def zip_map2 case_prod_beta)

lemma gt_kpt_spec_slices:
  assumes "r < length rows" and "length strides = length rows"
  shows "slice3 0 (gt_kpt_spec hw strides rows ! r) = map (\<lambda>v. v * snd hw / strides ! r) (slice3 0 (rows ! r))"
    and "slice3 1 (gt_kpt_spec hw strides rows ! r) = map (\<lambda>v. v * fst hw / strides ! r) (slice3 1 (rows ! r))"
    and "length (gt_kpt_spec hw strides rows ! r) = length (rows ! r)"
  using assms
  by (auto simp: gt_kpt_spec_def slice3_alt in_slice_mod3 nth_enumerate_eq)


lemma visible_nth: "r < length rows \<Longrightarrow> visible rows ! r = map (\<lambda>v. v \<noteq> 0) (slice3 2 (rows ! r))"
  by (simp add: visible_eq kpt_mask_of_def)

lemma visible_same:
  assumes "same_visible rows rows'"
  shows "visible rows = visible rows'"
proof -
  have "list_all2 (\<lambda>row row'. slice3 2 row = slice3 2 row') rows rows'"
    using assms unfolding same_visible_def
    by (rule list_all2_mono) (simp add: same_visible_row_def)
  then have "map (slice3 2) rows = map (slice3 2) rows'"
    by (induction rule: list_all2_induct) auto
  then have "map (map (\<lambda>v. v \<noteq> 0)) (map (slice3 2) rows) = map (map (\<lambda>v. v \<noteq> 0)) (map (slice3 2) rows')"
    by (simp only:)
  then show ?thesis by (simp add: visible_eq kpt_mask_of_def comp_def)
qed

lemma gt_kpt_spec_agree:
  assumes sv: "same_visible rows rows'" and len: "length strides = length rows"
    and r: "r < length rows"
  shows "agree_on_mask (visible rows ! r) (gt_kpt_spec hw strides rows ! r)
           (gt_kpt_spec hw strides rows' ! r)"
proof -
  have len': "length rows' = length rows"
    using sv by (simp add: same_visible_def list_all2_lengthD)
  have row: "same_visible_row (rows ! r) (rows' ! r)"
    using sv r by (simp add: same_visible_def list_all2_nthD)
  let ?m = "map (\<lambda>v. v \<noteq> 0) (slice3 2 (rows ! r))"
  from row have l: "length (rows ! r) = length (rows' ! r)"
    and m0: "masked ?m (slice3 0 (rows ! r)) = masked ?m (slice3 0 (rows' ! r))"
    and m1: "masked ?m (slice3 1 (rows ! r)) = masked ?m (slice3 1 (rows' ! r))"
    unfolding same_visible_row_def agree_on_mask_def by blast+
  have r': "r < length rows'" and len2: "length strides = length rows'"
    using r len len' by simp_all
  have "masked ?m (slice3 0 (gt_kpt_spec hw strides rows ! r)) =
        masked ?m (slice3 0 (gt_kpt_spec hw strides rows' ! r))"
    unfolding gt_kpt_spec_slices(1) [OF r len] gt_kpt_spec_slices(1) [OF r' len2] masked_map
    by (simp only: m0)
  moreover have "masked ?m (slice3 1 (gt_kpt_spec hw strides rows ! r)) =
        masked ?m (slice3 1 (gt_kpt_spec hw strides rows' ! r))"
    unfolding gt_kpt_spec_slices(2) [OF r len] gt_kpt_spec_slices(2) [OF r' len2] masked_map
    by (simp only: m1)
  moreover have "length (gt_kpt_spec hw strides rows ! r) = length (gt_kpt_spec hw strides rows' ! r)"
    unfolding gt_kpt_spec_slices(3) [OF r len] gt_kpt_spec_slices(3) [OF r' len2] by (rule l)
  ultimately show ?thesis
    unfolding agree_on_mask_def visible_nth [OF r] by blast
qed

lemma image_terms_same_visible:
  assumes hm: "honours_mask (keypoint_loss self)"
    and sv: "same_visible (b_keypoints batch) kp'"
  shows "image_terms lib self p a (scaled_keypoints p (batch\<lparr>b_keypoints := kp'\<rparr>)) tb i =
         image_terms lib self p a (scaled_keypoints p batch) tb i"
proof (cases "index (fg_mask a) i")
  case None
  then show ?thesis by (simp add: image_terms_eq)
next
  case fg: (Some fg)
  note rel = gt_rows_same_visible [OF sv, of p a i]
  show ?thesis
  proof (cases "gt_rows p a batch i")
    case None
    with rel have "gt_rows p a (batch\<lparr>b_keypoints := kp'\<rparr>) i = None" by simp
    with None show ?thesis using fg by (simp add: image_terms_eq)
  next
    case (Some rows)
    with rel obtain rows' where rows': "gt_rows p a (batch\<lparr>b_keypoints := kp'\<rparr>) i = Some rows'"
      and svr: "same_visible rows rows'"
      by (auto simp: option_rel_Some1)
    have vis: "visible rows' = visible rows" using visible_same [OF svr] by simp
    have lenr: "length rows' = length rows"
      using svr by (simp add: same_visible_def list_all2_lengthD)
    have kl: "keypoint_loss self pk (gt_kpt_spec (imgsz p) strides rows') (visible rows) ar =
              keypoint_loss self pk (gt_kpt_spec (imgsz p) strides rows) (visible rows) ar"
      if st: "mask_index fg (stride_tensor p) = Some strides" for strides pk ar
    proof -
      have len: "length strides = length rows"
        using gt_rows_lengths [OF Some fg st] .
      have "\<forall>r<length (gt_kpt_spec (imgsz p) strides rows).
               agree_on_mask (visible rows ! r) (gt_kpt_spec (imgsz p) strides rows ! r)
                 (gt_kpt_spec (imgsz p) strides rows' ! r)"
        using gt_kpt_spec_agree [OF svr len] len by (simp add: gt_kpt_spec_def)
      moreover have "length (gt_kpt_spec (imgsz p) strides rows) = length (gt_kpt_spec (imgsz p) strides rows')"
        using len lenr by (simp add: gt_kpt_spec_def)
      moreover have "length (visible rows) = length (gt_kpt_spec (imgsz p) strides rows)"
        using len by (simp add: visible_def gt_kpt_spec_def)
      ultimately show ?thesis
        using hm unfolding honours_mask_def by (metis (no_types, lifting))
    qed
    show ?thesis
      using fg Some rows' vis kl
      by (cases "mask_index fg (stride_tensor p)")
         (simp_all add: image_terms_eq cong: Option.bind_cong if_cong)
  qed
qed

lemma prepare_keypoints [simp]:
  "prepare lib self preds (batch\<lparr>b_keypoints := kp'\<rparr>) = prepare lib self preds batch"
  by (simp add: prepare_def)

lemma losses_of_same_visible:
  assumes "honours_mask (keypoint_loss self)" and "same_visible (b_keypoints batch) kp'"
  shows "losses_of lib self p a (batch\<lparr>b_keypoints := kp'\<rparr>) = losses_of lib self p a batch"
proof -
  have "image_losses lib self p a (scaled_keypoints p (batch\<lparr>b_keypoints := kp'\<rparr>)) tb =
        image_losses lib self p a (scaled_keypoints p batch) tb" for tb
    by (simp add: fun_eq_iff image_losses_eq image_terms_same_visible [OF assms])
  then have "fg_losses lib self p a (batch\<lparr>b_keypoints := kp'\<rparr>) loss = fg_losses lib self p a batch loss"
    for loss
    by (simp add: fg_losses_def)
  then show ?thesis
    by (simp add: losses_of_def Let_def cong: if_cong)
qed

lemma PoseLoss_raw_same_visible:
  assumes "honours_mask (keypoint_loss self)" and "same_visible (b_keypoints batch) kp'"
  shows "PoseLoss_raw lib self preds (batch\<lparr>b_keypoints := kp'\<rparr>) = PoseLoss_raw lib self preds batch"
  by (simp add: PoseLoss_raw_def losses_of_same_visible [OF assms] cong: Option.bind_cong)

lemma losses_of_components:
  assumes "losses_of lib self p a batch = Some (raw, tb)"
  shows "\<exists>ls vs.
           those (map (location_term lib self p a batch tb)
                   (filter (has_fg a) [0..<batch_size p])) = Some ls \<and>
           those (map (visibility_term self p a batch)
                   (filter (has_fg a) [0..<batch_size p])) = Some vs \<and>
           raw = [if sum_list (map count_true (fg_mask a)) = 0 then 0
                  else fst (bbox_loss self (pred_distri p) (pred_bboxes p) (anchor_points p) tb
                         (target_scores a) (target_scores_sum a) (fg_mask a)),
                  sum_list ls,
                  sum_list vs,
                  sum3 (bce self (pred_scores p) (target_scores a)) / target_scores_sum a,
                  if sum_list (map count_true (fg_mask a)) = 0 then 0
                  else snd (bbox_loss self (pred_distri p) (pred_bboxes p) (anchor_points p) tb
                         (target_scores a) (target_scores_sum a) (fg_mask a))]"
proof -
  from losses_of_keypoints [OF assms] obtain ls vs where
    ls: "those (map (location_term lib self p a batch tb)
                 (filter (has_fg a) [0..<batch_size p])) = Some ls" "raw ! 1 = sum_list ls" and
    vs: "those (map (visibility_term self p a batch)
                 (filter (has_fg a) [0..<batch_size p])) = Some vs" "raw ! 2 = sum_list vs"
    by blast
  show ?thesis
  proof (cases "sum_list (map count_true (fg_mask a)) = 0")
    case True
    with assms have "raw = [0, 0, 0,
        sum3 (bce self (pred_scores p) (target_scores a)) / target_scores_sum a, 0]"
      by (auto simp: losses_of_no_fg)
    with ls vs True show ?thesis by auto
  next
    case False
    from losses_of_fg [OF False assms] ls vs False show ?thesis by auto
  qed
qed

section \<open>The arguments of the assigner\<close>

lemma mul_rows_Some:
  assumes "mul_rows t c = Some r"
  shows "r = times_stride t c"
proof -
  consider (eq) "length t = length c"
    | (one_c) "length t \<noteq> length c" "length c = 1"
    | (one_t) "length t \<noteq> length c" "length c \<noteq> 1" "length t = 1"
    using assms by (auto simp: mul_rows_def split: if_splits)
  then show ?thesis
  proof cases
    case eq
    with assms have r: "r = map2 (\<lambda>row a. map (\<lambda>v. v * a) row) t c"
      by (simp add: mul_rows_def)
    show ?thesis
      unfolding r times_stride_def using eq
      by (intro nth_equalityI) auto
  next
    case one_c
    with assms have r: "r = map (map (\<lambda>v. v * hd c)) t"
      by (simp add: mul_rows_def)
    have "hd c = c ! 0" using one_c(2) by (cases c) simp_all
    then show ?thesis
      unfolding r times_stride_def using one_c
      by (intro nth_equalityI) auto
  next
    case one_t
    with assms have r: "r = map (\<lambda>a. map (\<lambda>v. v * a) (hd t)) c"
      by (simp add: mul_rows_def)
    have "hd t = t ! 0" using one_t(3) by (cases t) simp_all
    then show ?thesis
      unfolding r times_stride_def using one_t
      by (intro nth_equalityI) auto
  qed
qed

lemma mul_rows_None: "mul_rows t c = None \<longleftrightarrow> \<not> broadcasts t c"
  by (auto simp: mul_rows_def broadcasts_def)

lemma those_map_Some:
  assumes "\<And>x. x \<in> set xs \<Longrightarrow> f x = Some (g x)"
  shows "those (map f xs) = Some (map g xs)"
  using assms by (induction xs) simp_all

lemma those_map_None:
  assumes "x \<in> set xs" and "f x = None"
  shows "those (map f xs) = None"
  using assms by (induction xs) (auto split: option.splits)

lemma mul_rows3_eq:
  "mul_rows3 t c = (if list_all (\<lambda>im. broadcasts im c) t
                    then Some (map (\<lambda>im. times_stride im c) t) else None)"
proof (cases "list_all (\<lambda>im. broadcasts im c) t")
  case True
  have "mul_rows im c = Some (times_stride im c)" if "im \<in> set t" for im
  proof -
    from True that have "broadcasts im c" by (simp add: list_all_iff)
    then obtain r where "mul_rows im c = Some r"
      using mul_rows_None [of im c] by (cases "mul_rows im c") auto
    then show ?thesis using mul_rows_Some by simp
  qed
  then show ?thesis using True by (simp add: mul_rows3_def those_map_Some)
next
  case False
  then obtain im where "im \<in> set t" "\<not> broadcasts im c" by (auto simp: list_all_iff)
  then show ?thesis
    using False those_map_None [of im t "\<lambda>im. mul_rows im c"]
    by (simp add: mul_rows3_def mul_rows_None)
qed

lemma mul_rows_eq:
  "mul_rows t c = (if broadcasts t c then Some (times_stride t c) else None)"
  using mul_rows_None [of t c] mul_rows_Some [of t c]
  by (cases "mul_rows t c") auto

lemma assigner_args_eq:
  "assigner_args lib p =
     (if list_all (\<lambda>im. broadcasts im (stride_tensor p)) (pred_bboxes p) \<and>
         broadcasts (anchor_points p) (stride_tensor p)
      then Some (map (map (map (sigmoid lib))) (pred_scores p),
                 map (\<lambda>im. times_stride im (stride_tensor p)) (pred_bboxes p),
                 times_stride (anchor_points p) (stride_tensor p),
                 gt_labels p, gt_bboxes p, mask_gt p)
      else None)"
  by (simp add: assigner_args_def mul_rows3_eq mul_rows_eq)

lemma cat_targets_Some:
  assumes "cat_targets bi cl bb = Some t"
  shows "length bi = length cl \<and> length cl = length bb \<and>
         t = map (\<lambda>j. bi ! j # cl ! j # bb ! j) [0..<length bi]"
  using assms
  by (auto simp: cat_targets_def split: if_splits intro!: nth_equalityI)

lemma prepare_targets:
  assumes "prepare lib self preds batch = Some p"
  shows "length (b_batch_idx batch) = length (b_cls batch)"
    and "length (b_cls batch) = length (b_bboxes batch)"
    and "gt_labels p = map (map (take 1))
           (preprocess self (batch_targets batch) (batch_size p)
              [snd (imgsz p), fst (imgsz p), snd (imgsz p), fst (imgsz p)])"
    and "gt_bboxes p = map (map (drop 1))
           (preprocess self (batch_targets batch) (batch_size p)
              [snd (imgsz p), fst (imgsz p), snd (imgsz p), fst (imgsz p)])"
    and "mask_gt p = map (map (\<lambda>bx. [if 0 < sum_list bx then 1 else 0])) (gt_bboxes p)"
    and "pred_bboxes p = bbox_decode self (anchor_points p) (pred_distri p)"
    and "(anchor_points p, stride_tensor p) = make_anchors lib (fst (split_preds preds)) (stride self) 0.5"
  using assms
  by (auto simp: prepare_def Let_def batch_targets_def split_1_4_def
        split: Option.bind_splits prod.splits if_splits dest!: cat_targets_Some)

lemma PoseLoss_raw_explicit:
  assumes "prepare lib self preds batch = Some p"
  shows "PoseLoss_raw lib self preds batch =
           (if list_all (\<lambda>im. broadcasts im (stride_tensor p)) (pred_bboxes p) \<and>
               broadcasts (anchor_points p) (stride_tensor p)
            then case assigner self (map (map (map (sigmoid lib))) (pred_scores p))
                        (map (\<lambda>im. times_stride im (stride_tensor p)) (pred_bboxes p))
                        (times_stride (anchor_points p) (stride_tensor p))
                        (gt_labels p) (gt_bboxes p) (mask_gt p) of
                   (lb, tb0, ts, fg, idx) \<Rightarrow>
                     map_option (\<lambda>(loss, tb). (loss, tb, batch_size p))
                       (losses_of lib self p
                          \<lparr>target_bboxes = tb0, target_scores = ts, fg_mask = fg, target_gt_idx = idx\<rparr>
                          batch)
            else None)"
  unfolding PoseLoss_raw_unfold [OF assms]
  by (simp add: mul_rows3_eq mul_rows_eq)

section \<open>The concrete run, evaluated\<close>

lemma ex_prepare: "prepare ex_lib ex_self ex_preds ex_batch = Some ex_p"
  by (simp add: prepare_def ex_lib_def ex_self_def ex_base_def ex_preds_def ex_batch_def ex_p_def
        PoseLoss_init_def Loss.defs cat_views_def require_def index_def shape_hw_def
        cat_targets_def split_1_4_def upt_rec Let_def)

lemma ex_assign: "assign ex_lib ex_self ex_p = Some ex_a"
  by (simp add: assign_def assigner_args_def mul_rows3_def mul_rows_def ex_p_def ex_a_def
        ex_self_def ex_base_def ex_assigner_def PoseLoss_init_def Loss.defs)

lemma ex_scaled_keypoints: "scaled_keypoints ex_p ex_batch = [[8, 2, 2], [4, 6, 0]]"
  by (simp add: scaled_keypoints_def ex_p_def ex_batch_def slice3_upd_def in_slice_def)

lemma ex_terms0:
  "image_terms ex_lib ex_self ex_p ex_a [[8, 2, 2], [4, 6, 0]] ex_tb 0 = Some (241/8, 4)"
  by (simp add: image_terms_def gt_kpt_of_def xywh_of_def pred_kpt_of_def kpt_mask_of_def
        area_of_def index_def mask_index_def mask_select_def gather_def count_true_def
        islice_rows_def bcast_col_def slice3_def slice3_upd_def in_slice_def float_of_bool_def
        kpts_decode_def kpts_decode_st_def clone_def imul_slice_def iadd_slice_def col_def
        ex_p_def ex_a_def ex_tb_def ex_lib_def ex_self_def PoseLoss_init_def Loss.defs
        ex_keypoint_loss_def masked_def sq_err_def)

lemma ex_terms1:
  "image_terms ex_lib ex_self ex_p ex_a [[8, 2, 2], [4, 6, 0]] ex_tb (Suc 0) = Some (0, 8)"
  by (simp add: image_terms_def gt_kpt_of_def xywh_of_def pred_kpt_of_def kpt_mask_of_def
        area_of_def index_def mask_index_def mask_select_def gather_def count_true_def
        islice_rows_def bcast_col_def slice3_def slice3_upd_def in_slice_def float_of_bool_def
        kpts_decode_def kpts_decode_st_def clone_def imul_slice_def iadd_slice_def col_def
        ex_p_def ex_a_def ex_tb_def ex_lib_def ex_self_def PoseLoss_init_def Loss.defs
        ex_keypoint_loss_def masked_def sq_err_def)

lemma ex_losses: "losses_of ex_lib ex_self ex_p ex_a ex_batch = Some ([53/8, 241/8, 12, 47/4, 6], ex_tb)"
proof -
  have tb: "idiv_rows3 (target_bboxes ex_a) (stride_tensor ex_p) = Some ex_tb"
    by (simp add: idiv_rows3_def idiv_rows_def bcast_col_def ex_a_def ex_p_def ex_tb_def)
  have loop: "for_each [0..<batch_size ex_p]
                (image_losses ex_lib ex_self ex_p ex_a [[8, 2, 2], [4, 6, 0]] ex_tb) [53/8, 0, 0, 47/4, 6] =
              Some [53/8, 241/8, 12, 47/4, 6]"
  proof -
    have "[0..<batch_size ex_p] = [0, 1]" by (simp add: ex_p_def upt_rec)
    then show ?thesis by (simp add: image_losses_eq ex_terms0 ex_terms1)
  qed
  have ts: "target_scores_sum ex_a = 2"
    by (simp add: target_scores_sum_def py_max_def sum3_def ex_a_def)
  have cls: "sum3 (bce ex_self (pred_scores ex_p) (target_scores ex_a)) = 47/2"
    by (simp add: sum3_def ex_self_def ex_base_def PoseLoss_init_def Loss.defs ex_p_def ex_a_def sq_err_def)
  have bl: "bbox_loss ex_self (pred_distri ex_p) (pred_bboxes ex_p) (anchor_points ex_p) ex_tb
              (target_scores ex_a) 2 (fg_mask ex_a) = (53/8, 6)"
    by (simp add: sum3_def ex_self_def ex_base_def PoseLoss_init_def Loss.defs ex_p_def ex_a_def
          ex_tb_def sq_err_def)
  have fg: "sum_list (map count_true (fg_mask ex_a)) \<noteq> 0"
    by (simp add: ex_a_def count_true_def)
  show ?thesis
    using fg loop
    by (simp add: losses_of_def fg_losses_def tb ts cls bl ex_scaled_keypoints numeral_eq_Suc)
qed

lemma ex_raw: "PoseLoss_raw ex_lib ex_self ex_preds ex_batch = Some ([53/8, 241/8, 12, 47/4, 6], ex_tb, 2)"
  by (simp add: PoseLoss_raw_def ex_prepare ex_assign ex_losses) (simp add: ex_p_def)

lemma ex_gains:
  "gains ex_self 2 [53/8, 241/8, 12, 47/4, 6] = [795/16, 3615/32, 45, 47/8, 9]"
  by (simp add: gains_def ex_self_def ex_base_def PoseLoss_init_def Loss.defs)

lemma ex_locals:
  "PoseLoss_locals ex_lib ex_self ex_preds ex_batch =
     Some ((7121/16, [795/16, 3615/32, 45, 47/8, 9]), ex_tb)"
  by (simp add: PoseLoss_locals_def ex_raw ex_gains)

lemma ex_call:
  "PoseLoss_call ex_lib ex_self ex_preds ex_batch = Some (7121/16, [795/16, 3615/32, 45, 47/8, 9])"
  by (simp add: PoseLoss_call_def ex_locals)

lemma ex_keypoint_loss_honours: "honours_mask (ex_keypoint_loss n)"
  unfolding honours_mask_def
proof (intro allI impI)
  fix pk g g' :: t2 and m :: mask2 and ar :: t1
  assume h: "length g = length g' \<and> length m = length g \<and>
             (\<forall>r<length g. agree_on_mask (m ! r) (g ! r) (g' ! r))"
  let ?row = "\<lambda>(pr, gr, mr, a).
        sum_list (map (\<lambda>(px, py, gx, gy).
                    case (gx, gy) of
                      (Some x, Some y) \<Rightarrow> (sq_err px x + sq_err py y) / a
                    | _ \<Rightarrow> 0)
          (zip (slice3 0 pr) (zip (slice3 1 pr)
            (zip (masked mr (slice3 0 gr)) (masked mr (slice3 1 gr))))))"
  have "map ?row (zip pk (zip g (zip m ar))) = map ?row (zip pk (zip g' (zip m ar)))"
  proof (rule nth_equalityI)
    show "length (map ?row (zip pk (zip g (zip m ar)))) = length (map ?row (zip pk (zip g' (zip m ar))))"
      using h by simp
  next
    fix r assume "r < length (map ?row (zip pk (zip g (zip m ar))))"
    then have r: "r < length pk" "r < length g" "r < length g'" "r < length m" "r < length ar"
      using h by simp_all
    then have "agree_on_mask (m ! r) (g ! r) (g' ! r)" using h by simp
    then show "map ?row (zip pk (zip g (zip m ar))) ! r = map ?row (zip pk (zip g' (zip m ar))) ! r"
      using r by (simp add: agree_on_mask_def)
  qed
  then show "ex_keypoint_loss n pk g m ar = ex_keypoint_loss n pk g' m ar"
    by (simp add: ex_keypoint_loss_def)
qed

lemma ex_same_visible: "same_visible (b_keypoints ex_batch) [[1/2, 1/4, 2], [7/8, 1/8, 0]]"
  by (simp add: same_visible_def same_visible_row_def agree_on_mask_def masked_def ex_batch_def
        slice3_def in_slice_def)

lemma ex_prepare0: "prepare ex_lib ex_self0 ex_preds ex_batch = Some ex_p"
  by (simp add: ex_self0_def ex_prepare)

lemma ex_assign0: "assign ex_lib ex_self0 ex_p = Some ex_a0"
  by (simp add: assign_def assigner_args_def mul_rows3_def mul_rows_def ex_p_def ex_a0_def
        ex_self0_def ex_self_def ex_base_def ex_assigner0_def PoseLoss_init_def Loss.defs)

lemma ex_no_fg: "sum_list (map count_true (fg_mask ex_a0)) = 0"
  by (simp add: ex_a0_def count_true_def)

lemma ex_cls0: "sum3 (bce ex_self0 (pred_scores ex_p) (target_scores ex_a0)) / target_scores_sum ex_a0 = 30"
  by (simp add: sum3_def target_scores_sum_def py_max_def ex_self0_def ex_self_def ex_base_def
        PoseLoss_init_def Loss.defs ex_p_def ex_a0_def sq_err_def)

lemma ex_raw0:
  "PoseLoss_raw ex_lib ex_self0 ex_preds ex_batch = Some ([0, 0, 0, 30, 0], target_bboxes ex_a0, 2)"
  by (simp add: PoseLoss_raw_def ex_prepare0 ex_assign0 losses_of_no_fg [OF ex_no_fg] ex_cls0)
     (simp add: ex_p_def)

lemma ex_gains0: "gains ex_self0 2 [0, 0, 0, 30, 0] = [0, 0, 0, 15, 0]"
  by (simp add: gains_def ex_self0_def ex_self_def ex_base_def PoseLoss_init_def Loss.defs)

lemma ex_locals0:
  "PoseLoss_locals ex_lib ex_self0 ex_preds ex_batch = Some ((30, [0, 0, 0, 15, 0]), target_bboxes ex_a0)"
  by (simp add: PoseLoss_locals_def ex_raw0 ex_gains0)

lemma ex_prepare_dyn: "prepare ex_lib ex_self_dyn ex_preds ex_batch = Some ex_p"
  by (simp add: ex_self_dyn_def ex_prepare)

lemma ex_times_stride:
  "map (\<lambda>im. times_stride im (stride_tensor ex_p)) (pred_bboxes ex_p) =
     [[[- 4, 4, 12, 20], [- 4, - 4, 20, 4]], [[4, - 4, 4, 12], [12, 4, 20, 12]]]"
  "times_stride (anchor_points ex_p) (stride_tensor ex_p) = [[4, 4], [12, 4]]"
  by (simp_all add: times_stride_def ex_p_def upt_rec)

lemma ex_sigmoid:
  "map (map (map (sigmoid ex_lib))) (pred_scores ex_p) = [[[7/8], [1/4]], [[1/6], [9/10]]]"
  by (simp add: ex_lib_def ex_p_def)

lemma ex_assigner_dyn_scaled:
  "ex_assigner_dyn [[[7/8], [1/4]], [[1/6], [9/10]]]
     [[[- 4, 4, 12, 20], [- 4, - 4, 20, 4]], [[4, - 4, 4, 12], [12, 4, 20, 12]]]
     [[4, 4], [12, 4]] [[[0]], [[0]]] [[[4, 2, 12, 6]], [[2, 2, 6, 6]]] [[[1]], [[1]]] =
   ([[0, 0], [0, 0]],
    [[[4, 2, 12, 6], [4, 2, 12, 6]], [[2, 2, 6, 6], [2, 2, 6, 6]]],
    [[[7/8], [1/4]], [[1/6], [0]]],
    [[True, True], [True, False]],
    [[0, 0], [0, 0]])"
  by (simp add: ex_assigner_dyn_def Let_def)

lemma ex_assigner_dyn_unscaled:
  "ex_assigner_dyn [[[7/8], [1/4]], [[1/6], [9/10]]] (pred_bboxes ex_p) (anchor_points ex_p)
     [[[0]], [[0]]] [[[4, 2, 12, 6]], [[2, 2, 6, 6]]] [[[1]], [[1]]] =
   ([[0, 0], [0, 0]],
    [[[4, 2, 12, 6], [4, 2, 12, 6]], [[2, 2, 6, 6], [2, 2, 6, 6]]],
    [[[0], [0]], [[0], [0]]],
    [[False, False], [False, False]],
    [[0, 0], [0, 0]])"
  by (simp add: ex_assigner_dyn_def Let_def ex_p_def)

lemma ex_assign_dyn: "assign ex_lib ex_self_dyn ex_p = Some ex_a_dyn"
proof -
  have b: "list_all (\<lambda>im. broadcasts im (stride_tensor ex_p)) (pred_bboxes ex_p) \<and>
           broadcasts (anchor_points ex_p) (stride_tensor ex_p)"
    by (simp add: broadcasts_def ex_p_def)
  have f: "gt_labels ex_p = [[[0]], [[0]]]" "gt_bboxes ex_p = [[[4, 2, 12, 6]], [[2, 2, 6, 6]]]"
    "mask_gt ex_p = [[[1]], [[1]]]"
    by (simp_all add: ex_p_def)
  have a: "assigner ex_self_dyn = ex_assigner_dyn"
    by (simp add: ex_self_dyn_def)
  show ?thesis
    by (simp add: assign_def assigner_args_eq b ex_times_stride ex_sigmoid f a
          ex_assigner_dyn_scaled ex_a_dyn_def)
qed

lemma ex_terms_dyn0:
  "image_terms ex_lib ex_self_dyn ex_p ex_a_dyn [[8, 2, 2], [4, 6, 0]] ex_tb 0 = Some (145/4, 8)"
  by (simp add: image_terms_def gt_kpt_of_def xywh_of_def pred_kpt_of_def kpt_mask_of_def
        area_of_def index_def mask_index_def mask_select_def gather_def count_true_def
        islice_rows_def bcast_col_def slice3_def slice3_upd_def in_slice_def float_of_bool_def
        kpts_decode_def kpts_decode_st_def clone_def imul_slice_def iadd_slice_def col_def
        ex_p_def ex_a_dyn_def ex_tb_def ex_lib_def ex_self_dyn_def ex_self_def PoseLoss_init_def
        Loss.defs ex_keypoint_loss_def masked_def sq_err_def)

lemma ex_terms_dyn1:
  "image_terms ex_lib ex_self_dyn ex_p ex_a_dyn [[8, 2, 2], [4, 6, 0]] ex_tb (Suc 0) = Some (0, 4)"
  by (simp add: image_terms_def gt_kpt_of_def xywh_of_def pred_kpt_of_def kpt_mask_of_def
        area_of_def index_def mask_index_def mask_select_def gather_def count_true_def
        islice_rows_def bcast_col_def slice3_def slice3_upd_def in_slice_def float_of_bool_def
        kpts_decode_def kpts_decode_st_def clone_def imul_slice_def iadd_slice_def col_def
        ex_p_def ex_a_dyn_def ex_tb_def ex_lib_def ex_self_dyn_def ex_self_def PoseLoss_init_def
        Loss.defs ex_keypoint_loss_def masked_def sq_err_def)

lemma ex_losses_dyn:
  "losses_of ex_lib ex_self_dyn ex_p ex_a_dyn ex_batch =
     Some ([318/31, 145/4, 12, 15421/744, 288/31], ex_tb)"
proof -
  have tb: "idiv_rows3 (target_bboxes ex_a_dyn) (stride_tensor ex_p) = Some ex_tb"
    by (simp add: idiv_rows3_def idiv_rows_def bcast_col_def ex_a_dyn_def ex_p_def ex_tb_def)
  have loop: "for_each [0..<batch_size ex_p]
                (image_losses ex_lib ex_self_dyn ex_p ex_a_dyn [[8, 2, 2], [4, 6, 0]] ex_tb)
                [318/31, 0, 0, 15421/744, 288/31] =
              Some [318/31, 145/4, 12, 15421/744, 288/31]"
  proof -
    have "[0..<batch_size ex_p] = [0, 1]" by (simp add: ex_p_def upt_rec)
    then show ?thesis by (simp add: image_losses_eq ex_terms_dyn0 ex_terms_dyn1)
  qed
  have ts: "target_scores_sum ex_a_dyn = 31/24"
    by (simp add: target_scores_sum_def py_max_def sum3_def ex_a_dyn_def)
  have cls: "sum3 (bce ex_self_dyn (pred_scores ex_p) (target_scores ex_a_dyn)) = 15421/576"
    by (simp add: sum3_def ex_self_dyn_def ex_self_def ex_base_def PoseLoss_init_def Loss.defs
          ex_p_def ex_a_dyn_def sq_err_def)
  have bl: "bbox_loss ex_self_dyn (pred_distri ex_p) (pred_bboxes ex_p) (anchor_points ex_p) ex_tb
              (target_scores ex_a_dyn) (31/24) (fg_mask ex_a_dyn) = (318/31, 288/31)"
    by (simp add: sum3_def ex_self_dyn_def ex_self_def ex_base_def PoseLoss_init_def Loss.defs
          ex_p_def ex_a_dyn_def ex_tb_def sq_err_def)
  have fg: "sum_list (map count_true (fg_mask ex_a_dyn)) \<noteq> 0"
    by (simp add: ex_a_dyn_def count_true_def)
  show ?thesis
    using fg loop
    by (simp add: losses_of_def fg_losses_def tb ts cls bl ex_scaled_keypoints numeral_eq_Suc)
qed

lemma ex_raw_dyn:
  "PoseLoss_raw ex_lib ex_self_dyn ex_preds ex_batch =
     Some ([318/31, 145/4, 12, 15421/744, 288/31], ex_tb, 2)"
  by (simp add: PoseLoss_raw_def ex_prepare_dyn ex_assign_dyn ex_losses_dyn) (simp add: ex_p_def)

lemma ex_gains_dyn:
  "gains ex_self_dyn 2 [318/31, 145/4, 12, 15421/744, 288/31] =
     [2385/31, 2175/16, 45, 15421/1488, 432/31]"
  by (simp add: gains_def ex_self_dyn_def ex_self_def ex_base_def PoseLoss_init_def Loss.defs)

lemma ex_call_dyn:
  "PoseLoss_call ex_lib ex_self_dyn ex_preds ex_batch =
     Some (52484/93, [2385/31, 2175/16, 45, 15421/1488, 432/31])"
  by (simp add: PoseLoss_call_def PoseLoss_locals_def ex_raw_dyn ex_gains_dyn)

section \<open>kpts\_decode works on a clone\<close>

text \<open>
  Claim C7. \<open>kpts_decode\<close> never mutates its \<open>pred_kpts\<close> argument: every tensor of the
  store, \<open>pred_kpts\<close> among them, is after the call what it was before, whether the call
  returns or raises, and the tensor returned is a new one. The result does not depend on
  the \<open>bbox\<close> argument. The call returns exactly when every anchor point has two
  coordinates and the anchor points have as many rows as \<open>pred_kpts\<close>, or one row. The
  tensor returned has the shape of \<open>pred_kpts\<close>; its x channels (indices 0 mod 3) and
  y channels (indices 1 mod 3) are \<open>2 * v + anchor - 0.5\<close> and its visibility channels
  (indices 2 mod 3) are those of \<open>pred_kpts\<close>.
\<close>

theorem kpts_decode_clone_and_channels:
  assumes "ap < length h" and "pk < length h"
  shows "(\<forall>a<length h. snd (kpts_decode_st h ap pk bb) ! a = h ! a) \<and>
         kpts_decode_st h ap pk bb = kpts_decode_st h ap pk bb' \<and>
         (fst (kpts_decode_st h ap pk bb) \<noteq> None \<longleftrightarrow>
            list_all (\<lambda>r. 2 \<le> length r) (h ! ap) \<and>
            (length (h ! ap) = length (h ! pk) \<or> length (h ! ap) = 1)) \<and>
         (\<forall>y. fst (kpts_decode_st h ap pk bb) = Some y \<longrightarrow>
            y = length h \<and>
            length (snd (kpts_decode_st h ap pk bb) ! y) = length (h ! pk) \<and>
            (\<forall>r<length (h ! pk).
               length (snd (kpts_decode_st h ap pk bb) ! y ! r) = length (h ! pk ! r) \<and>
               (\<forall>c<length (h ! pk ! r).
                  snd (kpts_decode_st h ap pk bb) ! y ! r ! c =
                    kpts_decode_spec (h ! ap) (h ! pk) r c)))"
proof -
  have frame: "\<forall>a<length h. snd (kpts_decode_st h ap pk bb) ! a = h ! a"
    using kpts_decode_st_frame [OF assms(1), of pk bb] by (auto simp: nth_append)
  have bbox: "kpts_decode_st h ap pk bb = kpts_decode_st h ap pk bb'"
    by (simp add: kpts_decode_st_def)
  have result: "y = length h \<and>
            length (snd (kpts_decode_st h ap pk bb) ! y) = length (h ! pk) \<and>
            (\<forall>r<length (h ! pk).
               length (snd (kpts_decode_st h ap pk bb) ! y ! r) = length (h ! pk ! r) \<and>
               (\<forall>c<length (h ! pk ! r).
                  snd (kpts_decode_st h ap pk bb) ! y ! r ! c =
                    kpts_decode_spec (h ! ap) (h ! pk) r c))"
    if "fst (kpts_decode_st h ap pk bb) = Some y" for y
  proof -
    from that have "kpts_decode_st h ap pk bb = (Some y, snd (kpts_decode_st h ap pk bb))"
      by (metis prod.collapse)
    from kpts_decode_st_Some [OF assms(1) this] show ?thesis
      by auto
  qed
  show ?thesis
    using frame bbox kpts_decode_st_defined [OF assms(1), of pk bb] result by blast
qed

theorem kpts_decode_clone_and_channels_witness:
  "(0::nat) < length [[[1/2, 3/2 :: real]], [[1, 2, 3, 4]]] \<and>
   (1::nat) < length [[[1/2, 3/2 :: real]], [[1, 2, 3, 4]]] \<and>
   kpts_decode_st [[[1/2, 3/2]], [[1, 2, 3, 4]]] 0 1 0 =
     (Some 2, [[[1/2, 3/2]], [[1, 2, 3, 4]], [[2, 5, 3, 8]]]) \<and>
   snd (kpts_decode_st [[[1/2, 3/2]], [[1, 2, 3, 4]]] 0 1 0) ! 1 = [[1, 2, 3, 4]] \<and>
   kpts_decode_spec [[1/2, 3/2]] [[1, 2, 3, 4]] 0 1 = 5"
proof -
  let ?h = "[[[1/2, 3/2 :: real]], [[1, 2, 3, 4]]]"
  have run: "kpts_decode_st ?h 0 1 0 = (Some 2, [[[1/2, 3/2]], [[1, 2, 3, 4]], [[2, 5, 3, 8]]])"
    by (simp add: kpts_decode_st_def clone_def imul_slice_def iadd_slice_def islice_rows_def
          bcast_col_def col_def slice3_upd_def in_slice_def)
  have a: "(0::nat) < length ?h" and b: "(1::nat) < length ?h"
    by simp_all
  from kpts_decode_clone_and_channels [OF a b, of 0 0] run show ?thesis
    by (simp add: kpts_decode_spec_def)
qed

section \<open>The trainer\<close>

text \<open>
  Claim C8. For every \<open>overrides\<close> argument, \<open>None\<close> included, \<open>PoseTrainer.__init__\<close>
  delegates to the detection trainer with the configuration it was given and with a
  dictionary whose \<open>'task'\<close> entry is \<open>'pose'\<close> and whose other entries are those of the
  argument (none when the argument is \<open>None\<close>). \<open>get_model\<close> returns whenever the
  dataset configuration has the entries \<open>'nc'\<close> and \<open>'nkpt'\<close>, and the model it returns
  was constructed with 3 input channels, with these two entries as number of classes
  and number of keypoints, and with the \<open>cfg\<close> and \<open>verbose\<close> arguments.
\<close>

theorem PoseTrainer_specializes_to_pose:
  "PoseTrainer_init super_init cfg overrides =
     super_init cfg (snd (PoseTrainer_init (\<lambda>c d. (c, d)) cfg overrides)) \<and>
   fst (PoseTrainer_init (\<lambda>c d. (c, d)) cfg overrides) = cfg \<and>
   snd (PoseTrainer_init (\<lambda>c d. (c, d)) cfg overrides) ''task'' = Some (PyStr ''pose'') \<and>
   (\<forall>k. k \<noteq> ''task'' \<longrightarrow>
      snd (PoseTrainer_init (\<lambda>c d. (c, d)) cfg overrides) k =
        (case overrides of None \<Rightarrow> None | Some d \<Rightarrow> d k)) \<and>
   (get_model data mcfg weights verbose \<noteq> None \<longleftrightarrow> data ''nc'' \<noteq> None \<and> data ''nkpt'' \<noteq> None) \<and>
   (\<forall>m. get_model data mcfg weights verbose = Some m \<longrightarrow>
      m_ch m = 3 \<and> data ''nc'' = Some (m_nc m) \<and> data ''nkpt'' = Some (m_nkpt m) \<and>
      m_cfg m = mcfg \<and> m_verbose m = verbose)"
  by (auto simp: PoseTrainer_init_def get_model_def load_def Let_def
        split: option.splits Option.bind_splits)

theorem PoseTrainer_specializes_to_pose_witness:
  "snd (PoseTrainer_init (\<lambda>c d. (c, d)) PyNone None) ''task'' = Some (PyStr ''pose'') \<and>
   snd (PoseTrainer_init (\<lambda>c d. (c, d)) PyNone (Some [''task'' \<mapsto> PyStr ''detect'', ''epochs'' \<mapsto> PyInt 3]))
     ''task'' = Some (PyStr ''pose'') \<and>
   snd (PoseTrainer_init (\<lambda>c d. (c, d)) PyNone (Some [''task'' \<mapsto> PyStr ''detect'', ''epochs'' \<mapsto> PyInt 3]))
     ''epochs'' = Some (PyInt 3) \<and>
   get_model [''nc'' \<mapsto> PyInt 1, ''nkpt'' \<mapsto> PyInt 17] PyNone PyNone (PyBool True) =
     Some \<lparr>m_cfg = PyNone, m_ch = 3, m_nc = PyInt 1, m_nkpt = PyInt 17, m_verbose = PyBool True,
           m_loaded = []\<rparr> \<and>
   get_model [''nc'' \<mapsto> PyInt 1] PyNone PyNone (PyBool True) = None"
  using PoseTrainer_specializes_to_pose
    [of "\<lambda>c d. (c, d)" PyNone "Some [''task'' \<mapsto> PyStr ''detect'', ''epochs'' \<mapsto> PyInt 3]"
        "[''nc'' \<mapsto> PyInt 1, ''nkpt'' \<mapsto> PyInt 17]" PyNone PyNone "PyBool True"]
  by (simp add: PoseTrainer_init_def get_model_def)

text \<open>
  Claim C9. \<open>get_model\<close> calls \<open>load\<close> on the model it constructed if and only if the
  \<open>weights\<close> argument is truthy, and then once, with these weights; for weights left
  out (\<open>None\<close>) or falsy the model is returned as constructed, nothing loaded.
\<close>

theorem get_model_loads_iff_weights:
  assumes "get_model data mcfg weights verbose = Some m"
  shows "m_loaded m = (if truthy weights then [weights] else []) \<and>
         (m_loaded m \<noteq> [] \<longleftrightarrow> truthy weights) \<and>
         (\<not> truthy weights \<longrightarrow>
            m = \<lparr>m_cfg = mcfg, m_ch = 3, m_nc = m_nc m, m_nkpt = m_nkpt m,
                 m_verbose = verbose, m_loaded = []\<rparr>)"
  using assms
  by (auto simp: get_model_def load_def Let_def split: Option.bind_splits if_splits)

theorem get_model_loads_iff_weights_witness:
  "get_model [''nc'' \<mapsto> PyInt 1, ''nkpt'' \<mapsto> PyInt 17] (PyStr ''yolov8n-pose.yaml'') (PyObj 7) (PyBool True) =
     Some \<lparr>m_cfg = PyStr ''yolov8n-pose.yaml'', m_ch = 3, m_nc = PyInt 1, m_nkpt = PyInt 17,
           m_verbose = PyBool True, m_loaded = [PyObj 7]\<rparr> \<and>
   m_loaded \<lparr>m_cfg = PyStr ''yolov8n-pose.yaml'', m_ch = 3, m_nc = PyInt 1, m_nkpt = PyInt 17,
           m_verbose = PyBool True, m_loaded = [PyObj 7]\<rparr> = [PyObj 7] \<and>
   get_model [''nc'' \<mapsto> PyInt 1, ''nkpt'' \<mapsto> PyInt 17] (PyStr ''yolov8n-pose.yaml'') (PyStr '''') (PyBool True) =
     Some \<lparr>m_cfg = PyStr ''yolov8n-pose.yaml'', m_ch = 3, m_nc = PyInt 1, m_nkpt = PyInt 17,
           m_verbose = PyBool True, m_loaded = []\<rparr>"
proof -
  have run: "get_model [''nc'' \<mapsto> PyInt 1, ''nkpt'' \<mapsto> PyInt 17] (PyStr ''yolov8n-pose.yaml'') (PyObj 7) (PyBool True) =
     Some \<lparr>m_cfg = PyStr ''yolov8n-pose.yaml'', m_ch = 3, m_nc = PyInt 1, m_nkpt = PyInt 17,
           m_verbose = PyBool True, m_loaded = [PyObj 7]\<rparr>"
    by (simp add: get_model_def load_def)
  from get_model_loads_iff_weights [OF run] run show ?thesis
    by (simp add: get_model_def load_def)
qed

section \<open>The value of PoseLoss.\_\_call\_\_\<close>

text \<open>
  Claim C1. Whenever \<open>PoseLoss.__call__\<close> returns, it returns a pair. With \<open>raw\<close> the
  loss vector before the gains, whose five components are the box loss, the sum of the
  keypoint location terms, the sum of the keypoint visibility terms, the classification
  loss and the distribution focal loss (box and distribution focal loss are what
  \<open>bbox_loss\<close> returns, or zero without foreground anchors), and with \<open>bs\<close> the batch size,
  which is the first dimension of the first feature map and is positive, the second
  element of the pair is the vector of the box component times the box gain, the two
  keypoint components each times the box gain divided by \<open>bs\<close>, the classification
  component times the cls gain and the distribution focal component times the dfl gain;
  the first element is \<open>bs\<close> times the sum of that vector.
\<close>

theorem PoseLoss_call_scaled_sum:
  assumes "PoseLoss_call lib self preds batch = Some (tot, items)"
  shows "\<exists>raw tb bs x0 rest p a ls vs.
           PoseLoss_raw lib self preds batch = Some (raw, tb, bs) \<and>
           fst (split_preds preds) = x0 # rest \<and> bs = length x0 \<and> 0 < bs \<and>
           prepare lib self preds batch = Some p \<and> assign lib self p = Some a \<and>
           those (map (location_term lib self p a batch tb) (filter (has_fg a) [0..<bs])) = Some ls \<and>
           those (map (visibility_term self p a batch) (filter (has_fg a) [0..<bs])) = Some vs \<and>
           raw = [if sum_list (map count_true (fg_mask a)) = 0 then 0
                  else fst (bbox_loss self (pred_distri p) (pred_bboxes p) (anchor_points p) tb
                         (target_scores a) (target_scores_sum a) (fg_mask a)),
                  sum_list ls,
                  sum_list vs,
                  sum3 (bce self (pred_scores p) (target_scores a)) / target_scores_sum a,
                  if sum_list (map count_true (fg_mask a)) = 0 then 0
                  else snd (bbox_loss self (pred_distri p) (pred_bboxes p) (anchor_points p) tb
                         (target_scores a) (target_scores_sum a) (fg_mask a))] \<and>
           items = [raw ! 0 * box (hyp self),
                    raw ! 1 * (box (hyp self) / real bs),
                    raw ! 2 * (box (hyp self) / real bs),
                    raw ! 3 * cls (hyp self),
                    raw ! 4 * dfl (hyp self)] \<and>
           tot = real bs * sum_list items"
proof -
  from assms obtain tb raw bs where
    raw: "PoseLoss_raw lib self preds batch = Some (raw, tb, bs)" and
    items: "items = gains self bs raw" and tot: "tot = sum_list items * real bs"
    by (auto simp: PoseLoss_call_Some PoseLoss_locals_Some)
  from raw obtain p a where
    p: "prepare lib self preds batch = Some p" and a: "assign lib self p = Some a" and
    l: "losses_of lib self p a batch = Some (raw, tb)" and bs: "bs = batch_size p"
    by (auto simp: PoseLoss_raw_Some)
  from prepare_Some(1) [OF p] bs obtain x0 rest where
    x0: "fst (split_preds preds) = x0 # rest" "bs = length x0" "0 < bs"
    by auto
  have len: "length raw = 5" using losses_of_length [OF l] .
  have g: "items = [raw ! 0 * box (hyp self), raw ! 1 * (box (hyp self) / real bs),
                    raw ! 2 * (box (hyp self) / real bs), raw ! 3 * cls (hyp self),
                    raw ! 4 * dfl (hyp self)]"
    using items gains_eq [OF len, of self bs] by simp
  have t: "tot = real bs * sum_list items"
    using tot by (simp add: mult.commute)
  from losses_of_components [OF l] obtain ls vs where
    c: "those (map (location_term lib self p a batch tb) (filter (has_fg a) [0..<bs])) = Some ls"
       "those (map (visibility_term self p a batch) (filter (has_fg a) [0..<bs])) = Some vs"
       "raw = [if sum_list (map count_true (fg_mask a)) = 0 then 0
                  else fst (bbox_loss self (pred_distri p) (pred_bboxes p) (anchor_points p) tb
                         (target_scores a) (target_scores_sum a) (fg_mask a)),
                  sum_list ls,
                  sum_list vs,
                  sum3 (bce self (pred_scores p) (target_scores a)) / target_scores_sum a,
                  if sum_list (map count_true (fg_mask a)) = 0 then 0
                  else snd (bbox_loss self (pred_distri p) (pred_bboxes p) (anchor_points p) tb
                         (target_scores a) (target_scores_sum a) (fg_mask a))]"
    unfolding bs by blast
  show ?thesis
    using raw x0 p a c g t by blast
qed

theorem PoseLoss_call_scaled_sum_witness:
  "PoseLoss_call ex_lib ex_self ex_preds ex_batch =
     Some (7121/16, [795/16, 3615/32, 45, 47/8, 9]) \<and>
   PoseLoss_raw ex_lib ex_self ex_preds ex_batch = Some ([53/8, 241/8, 12, 47/4, 6], ex_tb, 2) \<and>
   [795/16, 3615/32, 45, 47/8, 9] =
     [53/8 * box (hyp ex_self), 241/8 * (box (hyp ex_self) / 2), 12 * (box (hyp ex_self) / 2),
      47/4 * cls (hyp ex_self), 6 * dfl (hyp ex_self)] \<and>
   (7121/16 :: real) = 2 * sum_list [795/16, 3615/32, 45, 47/8, 9]"
proof -
  have gain: "box (hyp ex_self) = 15/2" "cls (hyp ex_self) = 1/2" "dfl (hyp ex_self) = 3/2"
    by (simp_all add: ex_self_def ex_base_def PoseLoss_init_def Loss.defs)
  from PoseLoss_call_scaled_sum [OF ex_call] ex_call ex_raw show ?thesis
    by (simp add: gain)
qed

section \<open>Targets are assigned anew on every call\<close>

text \<open>
  Claim C2. Let \<open>p\<close> be the local variables of a call after line 96. The ground truth
  labels and boxes are the first column and the last four columns of what \<open>preprocess\<close>
  makes of the labelled objects of the batch (image index, class and box of each), and
  the validity mask is 1 where the entries of a ground truth box sum to more than 0.
  The predicted boxes are decoded from the predicted distribution at the anchor points
  of \<open>make_anchors\<close>. The call then runs the assigner once, on the sigmoid of every
  predicted score, on the predicted boxes with every row multiplied by the stride of its
  anchor, on the anchor points with every row multiplied by the stride of its anchor,
  and on these labels, boxes and mask; it raises when boxes or anchors do not broadcast
  against the strides. The target boxes, target scores, foreground mask and ground truth
  indices the assigner returns there are the ones the loss vector is computed from. So
  the value of the call depends on the assigner only through what it returns on these
  arguments: any other assigner that returns the same there gives the same value, and no
  matching is kept from one call to the next.
\<close>

theorem targets_recomputed_by_assigner:
  assumes "prepare lib self preds batch = Some p"
  shows "length (b_batch_idx batch) = length (b_cls batch) \<and>
         length (b_cls batch) = length (b_bboxes batch) \<and>
         gt_labels p = map (map (take 1))
           (preprocess self (batch_targets batch) (batch_size p)
              [snd (imgsz p), fst (imgsz p), snd (imgsz p), fst (imgsz p)]) \<and>
         gt_bboxes p = map (map (drop 1))
           (preprocess self (batch_targets batch) (batch_size p)
              [snd (imgsz p), fst (imgsz p), snd (imgsz p), fst (imgsz p)]) \<and>
         mask_gt p = map (map (\<lambda>bx. [if 0 < sum_list bx then 1 else 0])) (gt_bboxes p) \<and>
         pred_bboxes p = bbox_decode self (anchor_points p) (pred_distri p) \<and>
         (anchor_points p, stride_tensor p) =
           make_anchors lib (fst (split_preds preds)) (stride self) 0.5 \<and>
         PoseLoss_raw lib self preds batch =
           (if list_all (\<lambda>im. broadcasts im (stride_tensor p)) (pred_bboxes p) \<and>
               broadcasts (anchor_points p) (stride_tensor p)
            then case assigner self (map (map (map (sigmoid lib))) (pred_scores p))
                        (map (\<lambda>im. times_stride im (stride_tensor p)) (pred_bboxes p))
                        (times_stride (anchor_points p) (stride_tensor p))
                        (gt_labels p) (gt_bboxes p) (mask_gt p) of
                   (lb, tb0, ts, fg, idx) \<Rightarrow>
                     map_option (\<lambda>(loss, tb). (loss, tb, batch_size p))
                       (losses_of lib self p
                          \<lparr>target_bboxes = tb0, target_scores = ts, fg_mask = fg, target_gt_idx = idx\<rparr>
                          batch)
            else None) \<and>
         (\<forall>A. A (map (map (map (sigmoid lib))) (pred_scores p))
                 (map (\<lambda>im. times_stride im (stride_tensor p)) (pred_bboxes p))
                 (times_stride (anchor_points p) (stride_tensor p))
                 (gt_labels p) (gt_bboxes p) (mask_gt p) =
               assigner self (map (map (map (sigmoid lib))) (pred_scores p))
                 (map (\<lambda>im. times_stride im (stride_tensor p)) (pred_bboxes p))
                 (times_stride (anchor_points p) (stride_tensor p))
                 (gt_labels p) (gt_bboxes p) (mask_gt p) \<longrightarrow>
              PoseLoss_call lib (self\<lparr>assigner := A\<rparr>) preds batch =
              PoseLoss_call lib self preds batch)"
proof -
  have ext: "PoseLoss_call lib (self\<lparr>assigner := A\<rparr>) preds batch = PoseLoss_call lib self preds batch"
    if A: "A (map (map (map (sigmoid lib))) (pred_scores p))
                 (map (\<lambda>im. times_stride im (stride_tensor p)) (pred_bboxes p))
                 (times_stride (anchor_points p) (stride_tensor p))
                 (gt_labels p) (gt_bboxes p) (mask_gt p) =
               assigner self (map (map (map (sigmoid lib))) (pred_scores p))
                 (map (\<lambda>im. times_stride im (stride_tensor p)) (pred_bboxes p))
                 (times_stride (anchor_points p) (stride_tensor p))
                 (gt_labels p) (gt_bboxes p) (mask_gt p)" for A
  proof -
    have p': "prepare lib (self\<lparr>assigner := A\<rparr>) preds batch = Some p"
      using assms by simp
    have "PoseLoss_raw lib (self\<lparr>assigner := A\<rparr>) preds batch = PoseLoss_raw lib self preds batch"
      unfolding PoseLoss_raw_explicit [OF p'] PoseLoss_raw_explicit [OF assms]
      using A by simp
    then show ?thesis
      by (simp add: PoseLoss_call_def PoseLoss_locals_def)
  qed
  note t = prepare_targets [OF assms]
  show ?thesis
    apply (intro conjI)
            apply (rule t(1))
           apply (rule t(2))
          apply (rule t(3))
         apply (rule t(4))
        apply (rule t(5))
       apply (rule t(6))
      apply (rule t(7))
     apply (rule PoseLoss_raw_explicit [OF assms])
    using ext apply blast
    done
qed

theorem targets_recomputed_by_assigner_witness:
  "prepare ex_lib ex_self_dyn ex_preds ex_batch = Some ex_p \<and>
   batch_targets ex_batch = [[0, 0, 1/2, 1/2, 1/2, 1/2], [1, 0, 1/4, 1/2, 1/4, 1/2]] \<and>
   gt_labels ex_p = [[[0]], [[0]]] \<and>
   gt_bboxes ex_p = [[[4, 2, 12, 6]], [[2, 2, 6, 6]]] \<and>
   mask_gt ex_p = [[[1]], [[1]]] \<and>
   map (map (map (sigmoid ex_lib))) (pred_scores ex_p) = [[[7/8], [1/4]], [[1/6], [9/10]]] \<and>
   pred_bboxes ex_p =
     [[[- (1/2), 1/2, 3/2, 5/2], [- (1/2), - (1/2), 5/2, 1/2]],
      [[1/2, - (1/2), 1/2, 3/2], [3/2, 1/2, 5/2, 3/2]]] \<and>
   map (\<lambda>im. times_stride im (stride_tensor ex_p)) (pred_bboxes ex_p) =
     [[[- 4, 4, 12, 20], [- 4, - 4, 20, 4]], [[4, - 4, 4, 12], [12, 4, 20, 12]]] \<and>
   anchor_points ex_p = [[1/2, 1/2], [3/2, 1/2]] \<and>
   times_stride (anchor_points ex_p) (stride_tensor ex_p) = [[4, 4], [12, 4]] \<and>
   assign ex_lib ex_self_dyn ex_p = Some ex_a_dyn \<and>
   fg_mask ex_a_dyn = [[True, True], [True, False]] \<and>
   fst (snd (snd (snd (ex_assigner_dyn [[[7/8], [1/4]], [[1/6], [9/10]]] (pred_bboxes ex_p)
     (anchor_points ex_p) [[[0]], [[0]]] [[[4, 2, 12, 6]], [[2, 2, 6, 6]]] [[[1]], [[1]]])))) =
     [[False, False], [False, False]] \<and>
   PoseLoss_call ex_lib ex_self_dyn ex_preds ex_batch =
     Some (52484/93, [2385/31, 2175/16, 45, 15421/1488, 432/31]) \<and>
   PoseLoss_call ex_lib
     (ex_self_dyn\<lparr>assigner := (\<lambda>s b an l g m.
        if an = [[4, 4], [12, 4]] then ex_assigner_dyn s b an l g m
        else ex_assigner0 s b an l g m)\<rparr>)
     ex_preds ex_batch =
   PoseLoss_call ex_lib ex_self_dyn ex_preds ex_batch \<and>
   PoseLoss_call ex_lib (ex_self_dyn\<lparr>assigner := ex_assigner0\<rparr>) ex_preds ex_batch =
     Some (30, [0, 0, 0, 15, 0])"
proof -
  let ?B = "\<lambda>s b an l g m.
        if an = [[4, 4], [12, 4]] then ex_assigner_dyn s b an l g m
        else ex_assigner0 s b an l g m"
  note t = targets_recomputed_by_assigner [OF ex_prepare_dyn]
  have same: "PoseLoss_call ex_lib (ex_self_dyn\<lparr>assigner := ?B\<rparr>) ex_preds ex_batch =
        PoseLoss_call ex_lib ex_self_dyn ex_preds ex_batch"
    by (rule t [THEN conjunct2, THEN conjunct2, THEN conjunct2, THEN conjunct2, THEN conjunct2,
                THEN conjunct2, THEN conjunct2, THEN conjunct2, rule_format])
       (simp add: ex_times_stride ex_self_dyn_def)
  have other: "PoseLoss_call ex_lib (ex_self_dyn\<lparr>assigner := ex_assigner0\<rparr>) ex_preds ex_batch =
     Some (30, [0, 0, 0, 15, 0])"
    using ex_locals0 by (simp add: PoseLoss_call_def ex_self0_def ex_self_dyn_def)
  have f: "gt_labels ex_p = [[[0]], [[0]]]" "gt_bboxes ex_p = [[[4, 2, 12, 6]], [[2, 2, 6, 6]]]"
    "mask_gt ex_p = [[[1]], [[1]]]"
    "pred_bboxes ex_p =
     [[[- (1/2), 1/2, 3/2, 5/2], [- (1/2), - (1/2), 5/2, 1/2]],
      [[1/2, - (1/2), 1/2, 3/2], [3/2, 1/2, 5/2, 3/2]]]"
    "anchor_points ex_p = [[1/2, 1/2], [3/2, 1/2]]"
    by (simp_all add: ex_p_def)
  have bt: "batch_targets ex_batch = [[0, 0, 1/2, 1/2, 1/2, 1/2], [1, 0, 1/4, 1/2, 1/4, 1/2]]"
    by (simp add: batch_targets_def ex_batch_def upt_rec)
  have fg: "fg_mask ex_a_dyn = [[True, True], [True, False]]"
    by (simp add: ex_a_dyn_def)
  have un: "fst (snd (snd (snd (ex_assigner_dyn [[[7/8], [1/4]], [[1/6], [9/10]]] (pred_bboxes ex_p)
     (anchor_points ex_p) [[[0]], [[0]]] [[[4, 2, 12, 6]], [[2, 2, 6, 6]]] [[[1]], [[1]]])))) =
     [[False, False], [False, False]]"
    by (simp add: ex_assigner_dyn_unscaled)
  show ?thesis
    apply (intro conjI)
                   apply (rule ex_prepare_dyn)
                  apply (rule bt)
                 apply (rule f(1))
                apply (rule f(2))
               apply (rule f(3))
              apply (rule ex_sigmoid)
             apply (rule f(4))
            apply (rule ex_times_stride(1))
           apply (rule f(5))
          apply (rule ex_times_stride(2))
         apply (rule ex_assign_dyn)
        apply (rule fg)
       apply (rule un)
      apply (rule ex_call_dyn)
     apply (rule same)
    apply (rule other)
    done
qed

section \<open>Classification and keypoint visibility\<close>

text \<open>
  Claim C3. In a call that returns, the classification component of the loss vector
  (before its gain) is the binary cross-entropy \<open>self.bce\<close> of the permuted predicted
  scores and the assigned target scores, summed over all entries and divided by
  \<open>target_scores_sum\<close>, the target-score sum of line 103. The keypoint visibility
  component (before its gain) is the sum, over the images with foreground anchors, of
  \<open>self.bce_pose\<close> applied to the visibility channels of the predicted keypoints of the
  foreground anchors (every third channel from index 2) and to the mask of the nonzero
  ground truth visibilities as floats; \<open>__init__\<close> sets \<open>self.bce_pose\<close> to the
  library's binary cross-entropy with logits.
\<close>

theorem cls_and_visibility_components:
  assumes "PoseLoss_raw lib self preds batch = Some (raw, tb, bs)"
  shows "\<exists>p a x. prepare lib self preds batch = Some p \<and> assign lib self p = Some a \<and>
           cat_views (no self) (fst (split_preds preds)) = Some x \<and>
           pred_scores p = map transpose (map (drop (reg_max self * 4)) x) \<and>
           pred_kpts p = map transpose (snd (split_preds preds)) \<and>
           raw ! 3 = sum3 (bce self (pred_scores p) (target_scores a)) / target_scores_sum a \<and>
           (\<exists>vs. those (map (visibility_term self p a batch) (filter (has_fg a) [0..<bs])) = Some vs \<and>
                  raw ! 2 = sum_list vs) \<and>
           bce_pose (PoseLoss_init lib base n) = BCEWithLogitsLoss lib"
proof -
  from assms obtain p a where
    p: "prepare lib self preds batch = Some p" and a: "assign lib self p = Some a" and
    l: "losses_of lib self p a batch = Some (raw, tb)" and bs: "bs = batch_size p"
    by (auto simp: PoseLoss_raw_Some)
  have "bce_pose (PoseLoss_init lib base n) = BCEWithLogitsLoss lib"
    by (simp add: PoseLoss_init_def Loss.defs)
  then show ?thesis
    using p a bs losses_of_cls [OF l] losses_of_keypoints(2) [OF l] prepare_Some(2,3) [OF p]
    by auto
qed

theorem cls_and_visibility_components_witness:
  "PoseLoss_raw ex_lib ex_self ex_preds ex_batch = Some ([53/8, 241/8, 12, 47/4, 6], ex_tb, 2) \<and>
   sum3 (bce ex_self (pred_scores ex_p) (target_scores ex_a)) / target_scores_sum ex_a = 47/4 \<and>
   those (map (visibility_term ex_self ex_p ex_a ex_batch) (filter (has_fg ex_a) [0..<2])) =
     Some [4, 8] \<and>
   sum_list [4, 8 :: real] = 12"
proof -
  have cls: "sum3 (bce ex_self (pred_scores ex_p) (target_scores ex_a)) / target_scores_sum ex_a = 47/4"
    by (simp add: sum3_def target_scores_sum_def py_max_def ex_self_def ex_base_def
          PoseLoss_init_def Loss.defs ex_p_def ex_a_def sq_err_def)
  have fg: "filter (has_fg ex_a) [0..<2] = [0, 1]"
    by (simp add: has_fg_def index_def count_true_def ex_a_def upt_rec)
  have v0: "visibility_term ex_self ex_p ex_a ex_batch 0 = Some 4"
    by (simp add: visibility_term_def gt_rows_def visible_def index_def mask_index_def
          mask_select_def gather_def slice3_def in_slice_def float_of_bool_def
          ex_p_def ex_a_def ex_batch_def ex_lib_def ex_self_def PoseLoss_init_def Loss.defs
          sq_err_def)
  have v1: "visibility_term ex_self ex_p ex_a ex_batch (Suc 0) = Some 8"
    by (simp add: visibility_term_def gt_rows_def visible_def index_def mask_index_def
          mask_select_def gather_def slice3_def in_slice_def float_of_bool_def
          ex_p_def ex_a_def ex_batch_def ex_lib_def ex_self_def PoseLoss_init_def Loss.defs
          sq_err_def)
  from cls_and_visibility_components [OF ex_raw] ex_raw cls fg v0 v1 show ?thesis
    by simp
qed

section \<open>Keypoint location\<close>

text \<open>
  Claim C4. In a call that returns, the keypoint location component of the loss vector
  (before its gain) is the sum, over the images with foreground anchors, of the
  keypoint loss of: the decoded predicted keypoints of the foreground anchors; the
  ground truth keypoints of the objects assigned to these anchors, their x channels
  times the image width and their y channels times the image height, both then divided
  by the stride of the anchor; the mask of the keypoints whose ground truth visibility
  is not zero; and the areas, each the product of the width and the height of the
  target box of the anchor in xywh form (the target boxes are those of the assigner
  divided by the strides, as line 111 leaves them). \<open>__init__\<close> sets the keypoint
  loss to the \<open>KeypointLoss\<close> of the library. Only the visible keypoints count: when the
  keypoint loss honours the mask it is given, a batch whose keypoints differ only in
  the coordinates of keypoints of visibility zero gives the same loss vector.
\<close>

theorem keypoint_location_component:
  assumes "PoseLoss_raw lib self preds batch = Some (raw, tb, bs)"
  shows "\<exists>p a. prepare lib self preds batch = Some p \<and> assign lib self p = Some a \<and>
           (\<exists>ls. those (map (location_term lib self p a batch tb) (filter (has_fg a) [0..<bs])) = Some ls \<and>
                  raw ! 1 = sum_list ls) \<and>
           (sum_list (map count_true (fg_mask a)) = 0 \<or>
            idiv_rows3 (target_bboxes a) (stride_tensor p) = Some tb) \<and>
           keypoint_loss (PoseLoss_init lib base n) = KeypointLoss lib n \<and>
           (honours_mask (keypoint_loss self) \<longrightarrow>
              (\<forall>kp'. same_visible (b_keypoints batch) kp' \<longrightarrow>
                 PoseLoss_raw lib self preds (batch\<lparr>b_keypoints := kp'\<rparr>) = Some (raw, tb, bs)))"
proof -
  from assms obtain p a where
    p: "prepare lib self preds batch = Some p" and a: "assign lib self p = Some a" and
    l: "losses_of lib self p a batch = Some (raw, tb)" and bs: "bs = batch_size p"
    by (auto simp: PoseLoss_raw_Some)
  have k: "keypoint_loss (PoseLoss_init lib base n) = KeypointLoss lib n"
    by (simp add: PoseLoss_init_def Loss.defs)
  have d: "sum_list (map count_true (fg_mask a)) = 0 \<or>
           idiv_rows3 (target_bboxes a) (stride_tensor p) = Some tb"
  proof (cases "sum_list (map count_true (fg_mask a)) = 0")
    case True
    then show ?thesis by simp
  next
    case False
    from losses_of_fg [OF False l] show ?thesis by simp
  qed
  have inv: "PoseLoss_raw lib self preds (batch\<lparr>b_keypoints := kp'\<rparr>) = Some (raw, tb, bs)"
    if "honours_mask (keypoint_loss self)" and "same_visible (b_keypoints batch) kp'" for kp'
    using PoseLoss_raw_same_visible [OF that] assms by simp
  show ?thesis
    using p a bs k d inv losses_of_keypoints(1) [OF l] by auto
qed

theorem keypoint_location_component_witness:
  "PoseLoss_raw ex_lib ex_self ex_preds ex_batch = Some ([53/8, 241/8, 12, 47/4, 6], ex_tb, 2) \<and>
   those (map (location_term ex_lib ex_self ex_p ex_a ex_batch ex_tb) (filter (has_fg ex_a) [0..<2])) =
     Some [241/8, 0] \<and>
   sum_list [241/8, 0 :: real] = 241/8 \<and>
   idiv_rows3 (target_bboxes ex_a) (stride_tensor ex_p) = Some ex_tb \<and>
   honours_mask (keypoint_loss ex_self) \<and>
   same_visible (b_keypoints ex_batch) [[1/2, 1/4, 2], [7/8, 1/8, 0]] \<and>
   PoseLoss_raw ex_lib ex_self ex_preds (ex_batch\<lparr>b_keypoints := [[1/2, 1/4, 2], [7/8, 1/8, 0]]\<rparr>) =
     Some ([53/8, 241/8, 12, 47/4, 6], ex_tb, 2)"
proof -
  have fg: "filter (has_fg ex_a) [0..<2] = [0, 1]"
    by (simp add: has_fg_def index_def count_true_def ex_a_def upt_rec)
  have l0: "location_term ex_lib ex_self ex_p ex_a ex_batch ex_tb 0 = Some (241/8)"
    by (simp add: location_term_def gt_rows_def gt_kpt_spec_def visible_def pred_kpt_of_def
          index_def mask_index_def mask_select_def gather_def slice3_def slice3_upd_def
          in_slice_def islice_rows_def bcast_col_def col_def
          kpts_decode_def kpts_decode_st_def clone_def imul_slice_def iadd_slice_def
          ex_p_def ex_a_def ex_tb_def ex_batch_def ex_lib_def ex_self_def PoseLoss_init_def
          Loss.defs ex_keypoint_loss_def masked_def sq_err_def)
  have l1: "location_term ex_lib ex_self ex_p ex_a ex_batch ex_tb (Suc 0) = Some 0"
    by (simp add: location_term_def gt_rows_def gt_kpt_spec_def visible_def pred_kpt_of_def
          index_def mask_index_def mask_select_def gather_def slice3_def slice3_upd_def
          in_slice_def islice_rows_def bcast_col_def col_def
          kpts_decode_def kpts_decode_st_def clone_def imul_slice_def iadd_slice_def
          ex_p_def ex_a_def ex_tb_def ex_batch_def ex_lib_def ex_self_def PoseLoss_init_def
          Loss.defs ex_keypoint_loss_def masked_def sq_err_def)
  have tb: "idiv_rows3 (target_bboxes ex_a) (stride_tensor ex_p) = Some ex_tb"
    by (simp add: idiv_rows3_def idiv_rows_def bcast_col_def ex_a_def ex_p_def ex_tb_def)
  have hm: "honours_mask (keypoint_loss ex_self)"
    using ex_keypoint_loss_honours [of 1]
    by (simp add: ex_self_def ex_lib_def PoseLoss_init_def Loss.defs)
  from keypoint_location_component [OF ex_raw] hm ex_same_visible
  have "PoseLoss_raw ex_lib ex_self ex_preds (ex_batch\<lparr>b_keypoints := [[1/2, 1/4, 2], [7/8, 1/8, 0]]\<rparr>) =
          Some ([53/8, 241/8, 12, 47/4, 6], ex_tb, 2)"
    by blast
  then show ?thesis
    using ex_raw fg l0 l1 tb hm ex_same_visible by simp
qed

section \<open>The denominator of the classification loss\<close>

text \<open>
  Claim C5. In a call that returns, the classification component is a sum divided by
  \<open>target_scores_sum\<close>, which is the maximum of the sum of the target scores and 1: it
  is at least 1, so never zero, and it is 1 when the assigner gives all target scores as
  zero. (The entries are real numbers here; a NaN among the target scores is outside
  the embedding.)
\<close>

theorem cls_denominator_at_least_one:
  assumes "PoseLoss_raw lib self preds batch = Some (raw, tb, bs)"
  shows "\<exists>p a. prepare lib self preds batch = Some p \<and> assign lib self p = Some a \<and>
           raw ! 3 = sum3 (bce self (pred_scores p) (target_scores a)) / target_scores_sum a \<and>
           target_scores_sum a = max (sum3 (target_scores a)) 1 \<and>
           1 \<le> target_scores_sum a \<and> target_scores_sum a \<noteq> 0 \<and>
           (sum3 (target_scores a) = 0 \<longrightarrow> target_scores_sum a = 1)"
proof -
  from assms obtain p a where
    p: "prepare lib self preds batch = Some p" and a: "assign lib self p = Some a" and
    l: "losses_of lib self p a batch = Some (raw, tb)"
    by (auto simp: PoseLoss_raw_Some)
  show ?thesis
    using p a losses_of_cls [OF l]
    by (auto simp: target_scores_sum_def py_max_def max_def)
qed

theorem cls_denominator_at_least_one_witness:
  "PoseLoss_raw ex_lib ex_self0 ex_preds ex_batch = Some ([0, 0, 0, 30, 0], target_bboxes ex_a0, 2) \<and>
   assign ex_lib ex_self0 ex_p = Some ex_a0 \<and>
   sum3 (target_scores ex_a0) = 0 \<and>
   target_scores_sum ex_a0 = 1 \<and>
   sum3 (bce ex_self0 (pred_scores ex_p) (target_scores ex_a0)) = 30 \<and>
   sum3 (target_scores ex_a) = 2 \<and>
   target_scores_sum ex_a = 2"
proof -
  have z: "sum3 (target_scores ex_a0) = 0" "sum3 (target_scores ex_a) = 2"
    by (simp_all add: sum3_def ex_a0_def ex_a_def)
  have s: "target_scores_sum ex_a0 = 1" "target_scores_sum ex_a = 2"
    by (simp_all add: target_scores_sum_def py_max_def z)
  from cls_denominator_at_least_one [OF ex_raw0] ex_raw0 ex_assign0 ex_cls0 z s show ?thesis
    by simp
qed

section \<open>No foreground anchors\<close>

text \<open>
  Claim C6. When the foreground mask returned by the assigner selects no anchor
  (\<open>fg_mask.sum()\<close> is zero), the loss vector returned has zero box, keypoint location,
  keypoint visibility and distribution focal components, its classification component
  is the classification loss times the cls gain, and \<open>target_bboxes\<close> is at the end of
  the call the tensor the assigner returned: it has not been divided by the stride
  tensor.
\<close>

theorem no_foreground_only_cls:
  assumes "PoseLoss_locals lib self preds batch = Some ((tot, items), tb)"
    and "prepare lib self preds batch = Some p"
    and "assign lib self p = Some a"
    and "sum_list (map count_true (fg_mask a)) = 0"
  shows "items = [0, 0, 0,
                  sum3 (bce self (pred_scores p) (target_scores a)) / target_scores_sum a
                    * cls (hyp self), 0] \<and>
         tb = target_bboxes a"
  using assms
  by (auto simp: PoseLoss_locals_Some PoseLoss_raw_Some losses_of_no_fg gains_eq)

theorem no_foreground_only_cls_witness:
  "PoseLoss_locals ex_lib ex_self0 ex_preds ex_batch =
     Some ((30, [0, 0, 0, 15, 0]), target_bboxes ex_a0) \<and>
   prepare ex_lib ex_self0 ex_preds ex_batch = Some ex_p \<and>
   assign ex_lib ex_self0 ex_p = Some ex_a0 \<and>
   sum_list (map count_true (fg_mask ex_a0)) = 0 \<and>
   sum3 (bce ex_self0 (pred_scores ex_p) (target_scores ex_a0)) / target_scores_sum ex_a0
     * cls (hyp ex_self0) = 15 \<and>
   PoseLoss_locals ex_lib ex_self ex_preds ex_batch =
     Some ((7121/16, [795/16, 3615/32, 45, 47/8, 9]), ex_tb) \<and>
   ex_tb \<noteq> target_bboxes ex_a"
proof -
  have c: "cls (hyp ex_self0) = 1/2"
    by (simp add: ex_self0_def ex_self_def ex_base_def PoseLoss_init_def Loss.defs)
  have ne: "ex_tb \<noteq> target_bboxes ex_a"
    by (simp add: ex_tb_def ex_a_def)
  from no_foreground_only_cls [OF ex_locals0 ex_prepare0 ex_assign0 ex_no_fg]
    ex_locals0 ex_prepare0 ex_assign0 ex_no_fg ex_cls0 ex_locals ne
  show ?thesis
    by (simp add: c)
qed

end
